theory Spec2Isabelle
  imports Complex_Main "HOL-Library.Char_ord" "HOL-Library.List_Lexorder"
begin

section \<open>Python values, strings and errors\<close>

text \<open>
  The three analyzers of \<^verbatim>\<open>backend/core_engine\<close> (\<^verbatim>\<open>url_checker.py\<close>,
  \<^verbatim>\<open>email_checker.py\<close>, \<^verbatim>\<open>sms_checker.py\<close>) are embedded as HOL functions.
  A Python \<^verbatim>\<open>str\<close> is a \<open>string\<close>; a \<open>char\<close> stands for the code point of the
  same number, so the model covers the code points U+0000 to U+00FF, with the case
  mapping and the character classes Python gives them.  An exception is a value
  \<open>Inl e\<close> of the result type \<open>pyerror + 'a\<close>.
\<close>

datatype pyerror =
    KeyError string
  | ValueError
  | OSError
  | JSONDecodeError

datatype pyval =
    PyNone
  | PyBool bool
  | PyInt int
  | PyStr string
  | PyList "pyval list"

definition bind_err :: "pyerror + 'a \<Rightarrow> ('a \<Rightarrow> pyerror + 'b) \<Rightarrow> pyerror + 'b" where
  "bind_err m f = (case m of Inl e \<Rightarrow> Inl e | Inr x \<Rightarrow> f x)"

text \<open>Truthiness of an optional string: \<^verbatim>\<open>x or ""\<close>.\<close>

definition or_empty :: "string option \<Rightarrow> string" where
  "or_empty x = (case x of None \<Rightarrow> [] | Some s \<Rightarrow> s)"

subsection \<open>Character classes\<close>

definition cp :: "char \<Rightarrow> nat" where
  "cp c = of_char c"

text \<open>\<^verbatim>\<open>str.isspace\<close>, also the class \<^verbatim>\<open>\s\<close> of \<^verbatim>\<open>re\<close>.\<close>

definition is_space :: "char \<Rightarrow> bool" where
  "is_space c = (let n = cp c in (9 \<le> n \<and> n \<le> 13) \<or> (28 \<le> n \<and> n \<le> 32) \<or> n = 133 \<or> n = 160)"

text \<open>The class \<^verbatim>\<open>[0-9]\<close>, which is also \<^verbatim>\<open>\d\<close> below U+0100.\<close>

definition is_digit :: "char \<Rightarrow> bool" where
  "is_digit c = (let n = cp c in 48 \<le> n \<and> n \<le> 57)"

text \<open>\<^verbatim>\<open>str.isupper\<close> of one character.\<close>

definition is_upper :: "char \<Rightarrow> bool" where
  "is_upper c = (let n = cp c in (65 \<le> n \<and> n \<le> 90) \<or> (192 \<le> n \<and> n \<le> 214) \<or> (216 \<le> n \<and> n \<le> 222))"

definition lower_char :: "char \<Rightarrow> char" where
  "lower_char c = (if is_upper c then char_of (cp c + 32) else c)"

text \<open>\<^verbatim>\<open>str.lower\<close>.\<close>

definition py_lower :: "string \<Rightarrow> string" where
  "py_lower s = map lower_char s"

definition is_ascii_alnum :: "char \<Rightarrow> bool" where
  "is_ascii_alnum c = (let n = cp c in (48 \<le> n \<and> n \<le> 57) \<or> (65 \<le> n \<and> n \<le> 90) \<or> (97 \<le> n \<and> n \<le> 122))"

text \<open>The class \<^verbatim>\<open>\w\<close> of a \<^verbatim>\<open>str\<close> pattern: alphanumeric or the underscore.\<close>

definition is_word :: "char \<Rightarrow> bool" where
  "is_word c = (let n = cp c in
     is_ascii_alnum c \<or> n = 95 \<or> n = 170 \<or> n = 178 \<or> n = 179 \<or> n = 181 \<or> n = 185 \<or> n = 186
     \<or> (188 \<le> n \<and> n \<le> 190) \<or> (192 \<le> n \<and> n \<le> 214) \<or> (216 \<le> n \<and> n \<le> 246) \<or> 248 \<le> n)"

text \<open>Two characters match under \<^verbatim>\<open>re.IGNORECASE\<close>.\<close>

definition eq_ci :: "char \<Rightarrow> char \<Rightarrow> bool" where
  "eq_ci a b = (lower_char a = lower_char b)"

subsection \<open>String methods\<close>

text \<open>\<^verbatim>\<open>s.strip()\<close>.\<close>

definition py_strip :: "string \<Rightarrow> string" where
  "py_strip s = rev (dropWhile is_space (rev (dropWhile is_space s)))"

text \<open>\<^verbatim>\<open>s.startswith(p)\<close> and \<^verbatim>\<open>s.endswith(p)\<close>.\<close>

fun startswith :: "string \<Rightarrow> string \<Rightarrow> bool" where
  "startswith s [] = True"
| "startswith [] (p # ps) = False"
| "startswith (c # cs) (p # ps) = (c = p \<and> startswith cs ps)"

definition endswith :: "string \<Rightarrow> string \<Rightarrow> bool" where
  "endswith s p = startswith (rev s) (rev p)"

text \<open>\<^verbatim>\<open>sub in s\<close>.\<close>

fun str_in :: "string \<Rightarrow> string \<Rightarrow> bool" where
  "str_in sub [] = (sub = [])"
| "str_in sub (c # cs) = (startswith (c # cs) sub \<or> str_in sub cs)"

text \<open>\<^verbatim>\<open>s.split(sep)\<close> for a separator of one character.\<close>

fun split_chr :: "char \<Rightarrow> string \<Rightarrow> string list" where
  "split_chr sep [] = [[]]"
| "split_chr sep (c # cs) =
     (if c = sep then [] # split_chr sep cs
      else (case split_chr sep cs of [] \<Rightarrow> [[c]] | w # ws \<Rightarrow> (c # w) # ws))"

text \<open>\<^verbatim>\<open>sep.join(xs)\<close>.\<close>

fun py_join :: "string \<Rightarrow> string list \<Rightarrow> string" where
  "py_join sep [] = []"
| "py_join sep [x] = x"
| "py_join sep (x # y # ys) = x @ sep @ py_join sep (y # ys)"

text \<open>
  \<^verbatim>\<open>s.replace(old, new)\<close> for a non-empty \<open>old\<close>, which is the only use the
  analyzers make of it; \<open>k\<close> counts the characters of a match still to be skipped.
\<close>

fun replace_from :: "string \<Rightarrow> string \<Rightarrow> nat \<Rightarrow> string \<Rightarrow> string" where
  "replace_from old new k [] = []"
| "replace_from old new (Suc k) (c # cs) = replace_from old new k cs"
| "replace_from old new 0 (c # cs) =
     (if old \<noteq> [] \<and> startswith (c # cs) old then new @ replace_from old new (length old - 1) cs
      else c # replace_from old new 0 cs)"

definition py_replace :: "string \<Rightarrow> string \<Rightarrow> string \<Rightarrow> string" where
  "py_replace s old new = replace_from old new 0 s"

text \<open>\<^verbatim>\<open>str(n)\<close> of a non-negative integer, as the f-strings print it.\<close>

definition digit_char :: "nat \<Rightarrow> char" where
  "digit_char d = char_of (48 + d)"

fun show_nat :: "nat \<Rightarrow> string" where
  "show_nat n = (if n < 10 then [digit_char n] else show_nat (n div 10) @ [digit_char (n mod 10)])"

declare show_nat.simps [simp del]

definition quoted :: "string \<Rightarrow> string" where
  "quoted s = [CHR 0x27] @ s @ [CHR 0x27]"

section \<open>Library interface\<close>

text \<open>
  The analyzers call \<^verbatim>\<open>urllib.parse\<close>, \<^verbatim>\<open>tldextract\<close> and \<^verbatim>\<open>difflib\<close>, and
  iterate over Python sets.  None of this is code of the repository, so the model takes it
  as a parameter: a record of the library functions the analyzers use.  A theorem that
  holds for every such record holds whatever the libraries compute.
\<close>

record extract_result =
  subdomain :: string
  domain :: string
  suffix :: string

text \<open>
  What \<^verbatim>\<open>urlparse\<close> returns; \<open>hostname\<close> and \<open>port\<close> may be \<^verbatim>\<open>None\<close>.  The
  \<^verbatim>\<open>ValueError\<close> that \<^verbatim>\<open>urlparse\<close> or the \<^verbatim>\<open>port\<close> property raises is the
  \<open>Inl\<close> result of \<open>urlparse\<close> below.
\<close>

record parse_result =
  scheme :: string
  netloc :: string
  hostname :: "string option"
  path :: string
  query :: string
  port :: "nat option"

record libs =
  urlparse :: "string \<Rightarrow> pyerror + parse_result"
  unquote :: "string \<Rightarrow> string"
  tld_extract :: "string \<Rightarrow> extract_result"
  seq_ratio :: "string \<Rightarrow> string \<Rightarrow> rat"
  set_order :: "string list \<Rightarrow> string list"

text \<open>
  \<open>seq_ratio L a b\<close> is \<^verbatim>\<open>SequenceMatcher(None, a, b).ratio()\<close>, and
  \<open>set_order L xs\<close> is the order in which Python iterates over \<^verbatim>\<open>set(xs)\<close>.
\<close>

section \<open>Rule configuration\<close>

text \<open>
  A rules document is the dictionary \<^verbatim>\<open>json.load\<close> returns.  Each recognised key is
  absent (\<open>None\<close>) or holds a value of the type the analyzers expect; the analyzers read
  every key with \<^verbatim>\<open>rules.get(key, default)\<close>.
\<close>

record rules =
  weights :: "(string \<rightharpoonup> rat) option"
  suspicious_tlds :: "string list option"
  trusted_domains :: "string list option"
  phishing_keywords :: "string list option"
  detect_ip_urls :: "bool option"
  dangerous_attachments :: "string list option"
  urgent_phrases :: "string list option"
  info_request_phrases :: "string list option"
  suspicious_sender_domains :: "string list option"
  link_mismatch_detection :: "bool option"
  suspicious_numbers :: "string list option"
  unexpected_action_phrases :: "string list option"

definition no_rules :: rules where
  "no_rules = \<lparr> weights = None, suspicious_tlds = None, trusted_domains = None,
     phishing_keywords = None, detect_ip_urls = None, dangerous_attachments = None,
     urgent_phrases = None, info_request_phrases = None, suspicious_sender_domains = None,
     link_mismatch_detection = None, suspicious_numbers = None,
     unexpected_action_phrases = None \<rparr>"

text \<open>\<^verbatim>\<open>rules.get(key, [])\<close> and \<^verbatim>\<open>rules.get(key, True)\<close>.\<close>

definition get_list :: "string list option \<Rightarrow> string list" where
  "get_list v = (case v of None \<Rightarrow> [] | Some xs \<Rightarrow> xs)"

definition get_flag :: "bool option \<Rightarrow> bool" where
  "get_flag v = (case v of None \<Rightarrow> True | Some b \<Rightarrow> b)"

text \<open>
  What \<^verbatim>\<open>open(rules_path)\<close> followed by \<^verbatim>\<open>json.load\<close> does: the file does not exist,
  it exists and cannot be opened or read, it is read and is not JSON, or it is a document.
\<close>

datatype rules_file =
    FileNotFound
  | Unreadable
  | NotJSON
  | Document rules

definition default_url_rules :: rules where
  "default_url_rules = no_rules \<lparr>
     suspicious_tlds := Some [''.xyz'', ''.top'', ''.gq'', ''.tk'', ''.ml'', ''.ga'', ''.icu'',
       ''.buzz'', ''.rest'', ''.monster'', ''.zip'', ''.click'', ''.work'', ''.cn'', ''.ru''],
     trusted_domains := Some [''google.com'', ''paypal.com'', ''facebook.com'', ''youtube.com'',
       ''amazon.com'', ''netflix.com'', ''microsoft.com'', ''apple.com'', ''github.com'',
       ''linkedin.com''],
     phishing_keywords := Some [''login'', ''verify'', ''secure'', ''update'', ''unlock'',
       ''banking'', ''password'', ''confirm'', ''recovery'', ''account-security'', ''free-gift'',
       ''bonus'', ''promo'', ''alert'', ''suspend'', ''urgent'', ''auth'', ''2fa''],
     detect_ip_urls := Some True \<rparr>"

definition default_email_rules :: rules where
  "default_email_rules = no_rules \<lparr>
     dangerous_attachments := Some [''.exe'', ''.zip'', ''.rar'', ''.7z'', ''.bat'', ''.scr'',
       ''.js'', ''.vbs'', ''.jar'', ''.pdf''],
     urgent_phrases := Some [''urgent'', ''immediately'', ''your account will be closed'',
       ''last warning'', ''suspended'', ''final notice'', ''verify now'', ''action required'',
       ''unauthorized access'', ''security alert''],
     info_request_phrases := Some [''password'', ''credit card'', ''debit card'',
       ''security code'', ''otp'', ''2fa'', ''pin'', ''verify your identity'',
       ''confirm your details''],
     suspicious_sender_domains := Some [''outlook.com'', ''gmail.com'', ''yahoo.com'',
       ''hotmail.com''],
     link_mismatch_detection := Some True \<rparr>"

definition default_sms_rules :: rules where
  "default_sms_rules = no_rules \<lparr>
     suspicious_numbers := Some [''+000'', ''+999'', ''unknown'', ''private''],
     urgent_phrases := Some [''urgent'', ''verify now'', ''your account is locked'',
       ''security alert'', ''click this link'', ''your bank account is blocked'',
       ''reset immediately''],
     phishing_keywords := Some [''bank'', ''login'', ''verify'', ''password'', ''click'',
       ''promo'', ''free'', ''bonus'', ''gift''],
     unexpected_action_phrases := Some [''send your details'', ''provide your otp'',
       ''confirm your password'', ''share your pin''] \<rparr>"

text \<open>
  The three loaders catch \<^verbatim>\<open>FileNotFoundError\<close> and nothing else: any other failure
  of \<^verbatim>\<open>open\<close> or \<^verbatim>\<open>json.load\<close> leaves the loader as an exception.
\<close>

definition load_url_rules :: "rules_file \<Rightarrow> pyerror + rules" where
  "load_url_rules f =
     (case f of
        FileNotFound \<Rightarrow> Inr default_url_rules
      | Unreadable \<Rightarrow> Inl OSError
      | NotJSON \<Rightarrow> Inl JSONDecodeError
      | Document r \<Rightarrow> Inr r)"

definition load_email_rules :: "rules_file \<Rightarrow> pyerror + rules" where
  "load_email_rules f =
     (case f of
        FileNotFound \<Rightarrow> Inr default_email_rules
      | Unreadable \<Rightarrow> Inl OSError
      | NotJSON \<Rightarrow> Inl JSONDecodeError
      | Document r \<Rightarrow> Inr r)"

definition load_sms_rules :: "rules_file \<Rightarrow> pyerror + rules" where
  "load_sms_rules f =
     (case f of
        FileNotFound \<Rightarrow> Inr default_sms_rules
      | Unreadable \<Rightarrow> Inl OSError
      | NotJSON \<Rightarrow> Inl JSONDecodeError
      | Document r \<Rightarrow> Inr r)"

text \<open>\<^verbatim>\<open>get_weights\<close> of \<^verbatim>\<open>url_checker.py\<close> and of \<^verbatim>\<open>sms_checker.py\<close>.\<close>

definition url_default_weights :: "string \<rightharpoonup> rat" where
  "url_default_weights = map_of [
     (''ip_in_host'', 25), (''suspicious_tld'', 18), (''long_url'', 6), (''many_subdomains'', 8),
     (''hyphen_in_domain'', 6), (''punycode'', 20), (''suspicious_chars'', 6),
     (''suspicious_path_tokens'', 6), (''url_length_entropy'', 5), (''known_whitelist'', - 40),
     (''suspicious_domain_token_long'', 6)]"

definition url_get_weights :: "rules \<Rightarrow> (string \<rightharpoonup> rat)" where
  "url_get_weights r = (case weights r of None \<Rightarrow> url_default_weights | Some w \<Rightarrow> w)"

definition sms_default_weights :: "string \<rightharpoonup> rat" where
  "sms_default_weights = map_of [
     (''suspicious_sender_number'', 25), (''invalid_number_format'', 10), (''shortened_url'', 30),
     (''urgent_language'', 20), (''phishing_keywords'', 15), (''info_request'', 30),
     (''unexpected_action'', 25), (''too_good_to_be_true'', 15), (''suspicious_link'', 25),
     (''link_sender_mismatch'', 30), (''bank_mention_mismatch'', 15),
     (''suspicious_sender_name'', 15), (''no_contact_info'', 5),
     (''excessive_special_chars'', 10), (''excessive_caps'', 10)]"

definition sms_get_weights :: "rules \<Rightarrow> (string \<rightharpoonup> rat)" where
  "sms_get_weights r = (case weights r of None \<Rightarrow> sms_default_weights | Some w \<Rightarrow> w)"

text \<open>The module constant \<^verbatim>\<open>WEIGHTS\<close> of \<^verbatim>\<open>email_checker.py\<close>.\<close>

definition EMAIL_WEIGHTS :: "string \<rightharpoonup> rat" where
  "EMAIL_WEIGHTS = map_of [
     (''suspicious_sender_domain'', 20), (''sender_domain_mismatch'', 25),
     (''urgent_language'', 20), (''info_request'', 25), (''dangerous_attachment'', 20),
     (''suspicious_link'', 15), (''link_domain_mismatch'', 20), (''too_good_to_be_true'', 25),
     (''suspicious_subject'', 10), (''spelling_errors'', 25), (''generic_greeting'', 5),
     (''typosquatting'', 55)]"

definition TRUSTED_BRANDS :: "string list" where
  "TRUSTED_BRANDS = [''google'', ''support'', ''noreply'', ''github'', ''opay'', ''the5ers'']"

section \<open>Accumulated findings and the result\<close>

datatype indicator =
    IBool bool
  | ITokens "string list"
  | IFloat real

text \<open>The local variables \<^verbatim>\<open>score\<close>, \<^verbatim>\<open>reasons\<close> and \<^verbatim>\<open>indicators\<close> of an analyzer.\<close>

record acc =
  acc_score :: rat
  acc_reasons :: "string list"
  acc_indicators :: "string \<rightharpoonup> indicator"

definition acc0 :: acc where
  "acc0 = \<lparr> acc_score = 0, acc_reasons = [], acc_indicators = Map.empty \<rparr>"

definition add_reason :: "string \<Rightarrow> acc \<Rightarrow> acc" where
  "add_reason r st = st \<lparr> acc_reasons := acc_reasons st @ [r] \<rparr>"

definition add_score :: "rat \<Rightarrow> acc \<Rightarrow> acc" where
  "add_score w st = st \<lparr> acc_score := acc_score st + w \<rparr>"

definition set_indicator :: "string \<Rightarrow> indicator \<Rightarrow> acc \<Rightarrow> acc" where
  "set_indicator k v st = st \<lparr> acc_indicators := (acc_indicators st)(k \<mapsto> v) \<rparr>"

text \<open>\<^verbatim>\<open>WEIGHTS[key]\<close>, which raises \<^verbatim>\<open>KeyError\<close> on a key the table lacks.\<close>

definition lookup :: "(string \<rightharpoonup> rat) \<Rightarrow> string \<Rightarrow> pyerror + rat" where
  "lookup W k = (case W k of None \<Rightarrow> Inl (KeyError k) | Some w \<Rightarrow> Inr w)"

text \<open>\<^verbatim>\<open>reasons.append(r); score += WEIGHTS[key]\<close>.\<close>

definition fire :: "(string \<rightharpoonup> rat) \<Rightarrow> string \<Rightarrow> string \<Rightarrow> acc \<Rightarrow> pyerror + acc" where
  "fire W k r st = bind_err (lookup W k) (\<lambda>w. Inr (add_score w (add_reason r st)))"

text \<open>The checks of an analyzer, run in order; the first exception ends the run.\<close>

fun run_checks :: "(acc \<Rightarrow> pyerror + acc) list \<Rightarrow> acc \<Rightarrow> pyerror + acc" where
  "run_checks [] st = Inr st"
| "run_checks (c # cs) st = bind_err (c st) (run_checks cs)"

record analysis =
  score :: int
  verdict :: string
  reasons :: "string list"
  indicators :: "string \<rightharpoonup> indicator"

text \<open>\<^verbatim>\<open>int(x)\<close> of a number: truncation towards zero.\<close>

definition py_int :: "rat \<Rightarrow> int" where
  "py_int x = (if 0 \<le> x then \<lfloor>x\<rfloor> else \<lceil>x\<rceil>)"

text \<open>
  The final normalisation, the same three lines in each analyzer:
  \<^verbatim>\<open>raw_score = max(0, score); mapped = int(min(max(raw_score, 0), 100))\<close>.
\<close>

definition mapped_score :: "rat \<Rightarrow> int" where
  "mapped_score s = (let raw_score = max 0 s in py_int (min (max raw_score 0) 100))"

definition verdict_of :: "int \<Rightarrow> string" where
  "verdict_of mapped =
     (if mapped \<ge> 65 then ''phishing'' else if mapped \<ge> 30 then ''suspicious'' else ''safe'')"

definition sentinel_reason :: string where
  "sentinel_reason = ''No obvious automated red flags detected''"

text \<open>\<^verbatim>\<open>reasons or ["No obvious automated red flags detected"]\<close>.\<close>

definition reasons_or_sentinel :: "string list \<Rightarrow> string list" where
  "reasons_or_sentinel rs = (if rs = [] then [sentinel_reason] else rs)"

text \<open>How severe a verdict is, to compare two verdicts.\<close>

definition severity :: "string \<Rightarrow> nat" where
  "severity v = (if v = ''phishing'' then 2 else if v = ''suspicious'' then 1 else 0)"


section \<open>The URL analyzer\<close>

subsection \<open>Helpers and regular expressions\<close>

text \<open>\<^verbatim>\<open>re.split\<close> on a character class.\<close>

fun split_on :: "(char \<Rightarrow> bool) \<Rightarrow> string \<Rightarrow> string list" where
  "split_on P [] = [[]]"
| "split_on P (c # cs) =
     (if P c then [] # split_on P cs
      else (case split_on P cs of [] \<Rightarrow> [[c]] | w # ws \<Rightarrow> (c # w) # ws))"

text \<open>\<^verbatim>\<open>re.findall\<close> of \<^verbatim>\<open>[class]+\<close>: the maximal runs of characters of the class.\<close>

fun runs :: "(char \<Rightarrow> bool) \<Rightarrow> string \<Rightarrow> string \<Rightarrow> string list" where
  "runs P cur [] = (if cur = [] then [] else [cur])"
| "runs P cur (c # cs) =
     (if P c then runs P (cur @ [c]) cs
      else (if cur = [] then [] else [cur]) @ runs P [] cs)"

text \<open>\<^verbatim>\<open>re.search\<close>: the pattern matches at the start of some suffix of the string.\<close>

fun any_suffix :: "(string \<Rightarrow> bool) \<Rightarrow> string \<Rightarrow> bool" where
  "any_suffix P [] = P []"
| "any_suffix P (c # cs) = (P (c # cs) \<or> any_suffix P cs)"

text \<open>
  \<^verbatim>\<open>is_ip\<close>: \<^verbatim>\<open>re.fullmatch(r"\d{1,3}(?:\.\d{1,3}){3}", host)\<close>, that is four groups of
  one to three digits between dots, or a host in square brackets.
\<close>

definition is_ip :: "string \<Rightarrow> bool" where
  "is_ip host =
     ((let parts = split_chr CHR ''.'' host in
         length parts = 4 \<and> list_all (\<lambda>p. 1 \<le> length p \<and> length p \<le> 3 \<and> list_all is_digit p) parts)
      \<or> (startswith host ''['' \<and> endswith host '']''))"

definition contains_punycode :: "string \<Rightarrow> bool" where
  "contains_punycode host = str_in ''xn--'' (py_lower host)"

text \<open>
  \<^verbatim>\<open>entropy_score\<close>: the Shannon entropy of the character distribution, divided by 6
  and capped at 1.  The source computes it in floating point; the model computes the real
  number.
\<close>

definition entropy_score :: "string \<Rightarrow> real" where
  "entropy_score s =
     (if s = [] then 0
      else (let probs = map (\<lambda>c. real (count_list s c) / real (length s)) (remdups s);
                ent = - sum_list (map (\<lambda>p. p * log 2 p) (filter (\<lambda>p. p > 0) probs))
            in min (ent / 6) 1))"

text \<open>
  The character class that \<^verbatim>\<open>re.search\<close> looks for in \<^verbatim>\<open>original\<close> (check 7): the at
  sign, the caret, square brackets, braces, angle brackets, the backslash and the bar.
\<close>

definition suspicious_char_class :: "char list" where
  "suspicious_char_class = [CHR ''@'', CHR ''^'', CHR ''['', CHR '']'', CHR ''{'', CHR ''}'',
     CHR ''<'', CHR ''>'', CHR 0x5C, CHR ''|'']"

text \<open>The class of \<^verbatim>\<open>re.findall(r"[A-Za-z0-9_-]+", path.lower())\<close>.\<close>

definition token_char :: "char \<Rightarrow> bool" where
  "token_char c = (is_ascii_alnum c \<or> c = CHR ''_'' \<or> c = CHR ''-'')"

text \<open>
  The six patterns of step 11, each searched with \<^verbatim>\<open>re.IGNORECASE\<close>; a function
  \<open>..._at\<close> says whether the pattern matches at the start of its argument.

  \<^verbatim>\<open>(.)\1{2,}\<close>: a character other than the newline, then itself twice at least.
\<close>

fun repeated_char_at :: "string \<Rightarrow> bool" where
  "repeated_char_at (a # b # c # cs) = (a \<noteq> CHR 0x0A \<and> eq_ci b a \<and> eq_ci c a)"
| "repeated_char_at _ = False"

text \<open>\<^verbatim>\<open>(\w)\1{2,}\<close>.\<close>

fun repeated_word_char_at :: "string \<Rightarrow> bool" where
  "repeated_word_char_at (a # b # c # cs) = (is_word a \<and> eq_ci b a \<and> eq_ci c a)"
| "repeated_word_char_at _ = False"

text \<open>\<open>x\<close> is matched by a back-reference at the start of \<open>r\<close>.\<close>

definition ci_prefix :: "string \<Rightarrow> string \<Rightarrow> bool" where
  "ci_prefix x r = (length x \<le> length r \<and> list_all2 eq_ci x (take (length x) r))"

text \<open>\<^verbatim>\<open>(\w{2,})\1\<close>: two word characters or more, then the same again.\<close>

definition repeated_sequence_at :: "string \<Rightarrow> bool" where
  "repeated_sequence_at s =
     list_ex (\<lambda>k. ci_prefix (take k s) (drop k s)) [2 ..< Suc (length (takeWhile is_word s))]"

text \<open>
  \<^verbatim>\<open>(\w{3,})(\d+)\<close>: a digit is a word character, so the pattern matches where a run of
  word characters holds a digit after its first three characters.
\<close>

definition digits_after_at :: "string \<Rightarrow> bool" where
  "digits_after_at s = list_ex is_digit (drop 3 (takeWhile is_word s))"

text \<open>\<^verbatim>\<open>(\d+)(\w{3,})\<close>: a digit, then three word characters at least.\<close>

definition digits_before_at :: "string \<Rightarrow> bool" where
  "digits_before_at s =
     (case s of [] \<Rightarrow> False | c # cs \<Rightarrow> is_digit c \<and> 3 \<le> length (takeWhile is_word cs))"

text \<open>What is left of \<open>s\<close> after \<^verbatim>\<open>-?\<close>, and after \<^verbatim>\<open>(?:\w+)?\<close>.\<close>

definition after_opt_dash :: "string \<Rightarrow> string list" where
  "after_opt_dash s = (case s of [] \<Rightarrow> [s] | c # cs \<Rightarrow> if c = CHR ''-'' then [cs, s] else [s])"

definition after_opt_words :: "string \<Rightarrow> string list" where
  "after_opt_words s = map (\<lambda>m. drop m s) [0 ..< Suc (length (takeWhile is_word s))]"

text \<open>\<^verbatim>\<open>(\w{3,})-?(?:\w+)?-?(\1)\<close>.\<close>

definition repeated_words_at :: "string \<Rightarrow> bool" where
  "repeated_words_at s =
     list_ex (\<lambda>k.
        list_ex (\<lambda>r1. list_ex (\<lambda>r2. list_ex (\<lambda>r3. ci_prefix (take k s) r3) (after_opt_dash r2))
                   (after_opt_words r1))
          (after_opt_dash (drop k s)))
       [3 ..< Suc (length (takeWhile is_word s))]"

definition suspicious_patterns :: "((string \<Rightarrow> bool) \<times> string) list" where
  "suspicious_patterns = [
     (any_suffix repeated_char_at, ''Repeated characters in domain''),
     (any_suffix repeated_word_char_at, ''Repeated characters in domain''),
     (any_suffix repeated_sequence_at, ''Repeated sequence in domain''),
     (any_suffix digits_after_at, ''Numbers after brand name''),
     (any_suffix digits_before_at, ''Numbers before brand name''),
     (any_suffix repeated_words_at, ''Repeated words with separators'')]"

text \<open>The loop over the patterns, left at the first pattern some token matches.\<close>

fun first_pattern :: "((string \<Rightarrow> bool) \<times> string) list \<Rightarrow> string list \<Rightarrow> string option" where
  "first_pattern [] toks = None"
| "first_pattern ((m, r) # ps) toks = (if list_ex m toks then Some r else first_pattern ps toks)"

text \<open>
  \<^verbatim>\<open>is_similar_to_whitelisted\<close>, with its threshold 0.8, over the whitelist in the order
  of iteration; the caller passes the domain in lower case.
\<close>

fun is_similar_to_whitelisted :: "libs \<Rightarrow> string \<Rightarrow> string list \<Rightarrow> bool \<times> string option" where
  "is_similar_to_whitelisted L d [] = (False, None)"
| "is_similar_to_whitelisted L d (w # ws) =
     (if d = w then (True, Some w)
      else if seq_ratio L d w \<ge> 4 / 5 then (False, Some w)
      else if (length d = Suc (length w) \<or> length w = Suc (length d)) \<and> (str_in w d \<or> str_in d w)
        then (False, Some w)
      else if length d > 5 \<and> length w > 5 \<and> (tl d = tl w \<or> butlast d = butlast w)
        then (False, Some w)
      else is_similar_to_whitelisted L d ws)"

text \<open>Truthiness of \<^verbatim>\<open>matched_whitelist\<close>: neither \<^verbatim>\<open>None\<close> nor the empty string.\<close>

definition truthy :: "string option \<Rightarrow> bool" where
  "truthy m = (case m of None \<Rightarrow> False | Some w \<Rightarrow> w \<noteq> [])"

definition is_gov_or_cctld :: "string \<Rightarrow> bool" where
  "is_gov_or_cctld suffix_top = (suffix_top = ''gov'' \<or> length suffix_top = 2)"

definition suffix_top_of :: "extract_result \<Rightarrow> string" where
  "suffix_top_of ext = last (split_chr CHR ''.'' (py_lower (suffix ext)))"

subsection \<open>The parsed URL\<close>

record parsed_info =
  pi_scheme :: string
  pi_host :: string
  pi_root_domain :: string
  pi_subdomain :: string
  pi_path :: string
  pi_query :: string
  pi_port :: "nat option"

record url_parts =
  original :: string
  extracted :: extract_result
  info :: parsed_info

text \<open>Lines 110 to 134 of \<^verbatim>\<open>analyze_url\<close>: everything computed before the checks.\<close>

definition url_parts_of :: "libs \<Rightarrow> string \<Rightarrow> pyerror + url_parts" where
  "url_parts_of L u =
     (let orig = py_strip u;
          test_url = (if str_in ''://'' orig then orig else ''http://'' @ orig)
      in bind_err (urlparse L test_url) (\<lambda>parsed.
           let host = or_empty (hostname parsed);
               ext = tld_extract L host;
               root_domain = py_join ''.'' (filter (\<lambda>part. part \<noteq> []) [domain ext, suffix ext])
           in Inr \<lparr> original = orig, extracted = ext,
                info = \<lparr> pi_scheme = scheme parsed, pi_host = host, pi_root_domain = root_domain,
                         pi_subdomain = subdomain ext, pi_path = unquote L (path parsed),
                         pi_query = query parsed, pi_port = port parsed \<rparr> \<rparr>))"

subsection \<open>The checks\<close>

definition check_ip :: "(string \<rightharpoonup> rat) \<Rightarrow> bool \<Rightarrow> string \<Rightarrow> acc \<Rightarrow> pyerror + acc" where
  "check_ip W detect host st =
     (if detect then
        (let ip_flag = is_ip host;
             st1 = set_indicator ''ip_in_host'' (IBool ip_flag) st
         in if ip_flag
            then fire W ''ip_in_host'' ''Host is an IP address (not a domain) - from url_rules.json'' st1
            else Inr st1)
      else Inr st)"

definition check_tld :: "(string \<rightharpoonup> rat) \<Rightarrow> string list \<Rightarrow> extract_result \<Rightarrow> acc \<Rightarrow> pyerror + acc" where
  "check_tld W SUSPICIOUS_TLDS ext st =
     (let suffix_full = py_lower (suffix ext);
          suffix_top = suffix_top_of ext;
          gov = is_gov_or_cctld suffix_top;
          tld_flag = (suffix_top \<in> set SUSPICIOUS_TLDS \<and> \<not> gov);
          st1 = set_indicator ''suspicious_tld'' (IBool tld_flag) st
      in if gov then
           Inr (add_score (- 20) (add_reason (''Top-level domain '' @ quoted (''.'' @ suffix_full)
                  @ '' is a trusted government or country-specific TLD'') st1))
         else if tld_flag then
           fire W ''suspicious_tld'' (''Top-level domain '' @ quoted (suffix ext)
                  @ '' is suspicious/unusual (from url_rules.json)'') st1
         else Inr st1)"

definition check_long_url :: "(string \<rightharpoonup> rat) \<Rightarrow> string \<Rightarrow> acc \<Rightarrow> pyerror + acc" where
  "check_long_url W orig st =
     (let url_len = length orig;
          st1 = set_indicator ''long_url'' (IBool (url_len > 100)) st
      in if url_len > 100
         then fire W ''long_url'' (''URL length is long ('' @ show_nat url_len @ '' characters)'') st1
         else Inr st1)"

definition standard_subdomains :: "string list" where
  "standard_subdomains = [''www'', ''m'', []]"

definition sub_count_of :: "string \<Rightarrow> nat" where
  "sub_count_of sub =
     (let clean_subdomain =
            py_join ''.'' (filter (\<lambda>p. p \<notin> set standard_subdomains) (split_chr CHR ''.'' sub))
      in count_list clean_subdomain CHR ''.'' + (if clean_subdomain \<noteq> [] then 1 else 0))"

definition check_subdomains :: "(string \<rightharpoonup> rat) \<Rightarrow> string \<Rightarrow> bool \<Rightarrow> acc \<Rightarrow> pyerror + acc" where
  "check_subdomains W sub gov st =
     (let sub_count = sub_count_of sub;
          many_subdomains_flag = (sub_count \<ge> 2 \<and> \<not> gov);
          st1 = set_indicator ''many_subdomains'' (IBool many_subdomains_flag) st
      in if many_subdomains_flag
         then fire W ''many_subdomains''
                (''Excessive subdomains detected ('' @ show_nat sub_count @ '')'') st1
         else Inr st1)"

definition check_hyphen :: "(string \<rightharpoonup> rat) \<Rightarrow> string \<Rightarrow> bool \<Rightarrow> acc \<Rightarrow> pyerror + acc" where
  "check_hyphen W dmn gov st =
     (let hyphen_flag = (CHR ''-'' \<in> set dmn \<and> \<not> gov);
          st1 = set_indicator ''hyphen_in_domain'' (IBool hyphen_flag) st
      in if hyphen_flag
         then fire W ''hyphen_in_domain''
                ''Hyphen found in root domain (unusual for official entities)'' st1
         else Inr st1)"

definition check_punycode :: "(string \<rightharpoonup> rat) \<Rightarrow> string \<Rightarrow> acc \<Rightarrow> pyerror + acc" where
  "check_punycode W host st =
     (let puny_flag = contains_punycode host;
          st1 = set_indicator ''punycode'' (IBool puny_flag) st
      in if puny_flag
         then fire W ''punycode'' ''Punycode found in host (possible homograph attack)'' st1
         else Inr st1)"

definition check_chars :: "(string \<rightharpoonup> rat) \<Rightarrow> string \<Rightarrow> bool \<Rightarrow> acc \<Rightarrow> pyerror + acc" where
  "check_chars W orig gov st =
     (let suspicious_chars = (list_ex (\<lambda>c. c \<in> set suspicious_char_class) orig \<and> \<not> gov);
          st1 = set_indicator ''suspicious_chars'' (IBool suspicious_chars) st
      in if suspicious_chars
         then fire W ''suspicious_chars'' ''Suspicious characters detected in URL'' st1
         else Inr st1)"

definition check_path_tokens ::
  "libs \<Rightarrow> (string \<rightharpoonup> rat) \<Rightarrow> string list \<Rightarrow> string \<Rightarrow> acc \<Rightarrow> pyerror + acc" where
  "check_path_tokens L W SUSPICIOUS_PATH_TOKENS pth st =
     (let path_tokens = remdups (runs token_char [] (py_lower pth));
          suspicious_tokens_found = filter (\<lambda>t. t \<in> set SUSPICIOUS_PATH_TOKENS) path_tokens;
          st1 = set_indicator ''suspicious_path_tokens''
                  (ITokens (set_order L suspicious_tokens_found)) st
      in if suspicious_tokens_found \<noteq> []
         then fire W ''suspicious_path_tokens''
                (''Suspicious path tokens found: '' @ py_join '', '' (sort suspicious_tokens_found)) st1
         else Inr st1)"

definition check_entropy :: "(string \<rightharpoonup> rat) \<Rightarrow> string \<Rightarrow> string \<Rightarrow> bool \<Rightarrow> acc \<Rightarrow> pyerror + acc" where
  "check_entropy W pth qry gov st =
     (let ent = entropy_score (py_strip (pth @ '' '' @ qry));
          st1 = set_indicator ''entropy_score'' (IFloat ent) st
      in if ent > 9 / 10 \<and> \<not> gov
         then fire W ''url_length_entropy''
                ''High character entropy in path/query (random-looking)'' st1
         else Inr st1)"

definition check_whitelist :: "libs \<Rightarrow> string list \<Rightarrow> string \<Rightarrow> bool \<Rightarrow> acc \<Rightarrow> pyerror + acc" where
  "check_whitelist L ROOT_DOMAIN_WHITELIST root_domain gov st =
     (case is_similar_to_whitelisted L (py_lower root_domain) (set_order L ROOT_DOMAIN_WHITELIST) of
        (is_whitelisted, matched_whitelist) \<Rightarrow>
          (let st1 = set_indicator ''known_whitelist'' (IBool is_whitelisted) st
           in if is_whitelisted \<or> gov then
                Inr (add_score (- 40) (add_reason
                  (''Trust verified: Result is within a secure/official name space (''
                     @ quoted root_domain @ '')'') st1))
              else if truthy matched_whitelist then
                Inr (add_score 65 (add_reason
                  (''Alert: Domain '' @ quoted root_domain @ '' mimics trusted brand ''
                     @ quoted (or_empty matched_whitelist)) st1))
              else Inr st1))"

definition check_domain_patterns ::
  "libs \<Rightarrow> (string \<rightharpoonup> rat) \<Rightarrow> string list \<Rightarrow> string \<Rightarrow> string \<Rightarrow> acc \<Rightarrow> pyerror + acc" where
  "check_domain_patterns L W ROOT_DOMAIN_WHITELIST root_domain dmn st =
     (case is_similar_to_whitelisted L (py_lower root_domain) (set_order L ROOT_DOMAIN_WHITELIST) of
        (is_whitelisted, matched_whitelist) \<Rightarrow>
          if is_whitelisted \<or> truthy matched_whitelist then
            (let domain_tokens = split_on (\<lambda>c. c = CHR ''-'' \<or> c = CHR ''.'') dmn;
                 st1 = (case first_pattern suspicious_patterns domain_tokens of
                          None \<Rightarrow> st
                        | Some reason \<Rightarrow>
                            add_score 30 (add_reason
                              (''Suspicious domain pattern detected: '' @ reason) st));
                 suspicious_token_flag = list_ex (\<lambda>tok. length tok > 20) domain_tokens;
                 st2 = set_indicator ''suspicious_domain_token_long'' (IBool suspicious_token_flag) st1
             in if suspicious_token_flag
                then Inr (add_score
                       (case W ''suspicious_domain_token_long'' of None \<Rightarrow> 6 | Some w \<Rightarrow> w)
                       (add_reason ''Unusually long token in domain name'' st2))
                else Inr st2)
          else Inr st)"

text \<open>The eleven checks of \<^verbatim>\<open>analyze_url\<close>, in the order of the source.\<close>

definition url_checks :: "libs \<Rightarrow> rules \<Rightarrow> url_parts \<Rightarrow> pyerror + acc" where
  "url_checks L rules p =
     (let WEIGHTS = url_get_weights rules;
          SUSPICIOUS_TLDS = map (\<lambda>tld. py_replace tld ''.'' []) (get_list (suspicious_tlds rules));
          ROOT_DOMAIN_WHITELIST = get_list (trusted_domains rules);
          SUSPICIOUS_PATH_TOKENS = get_list (phishing_keywords rules);
          DETECT_IP_URLS = get_flag (detect_ip_urls rules);
          ext = extracted p;
          gov = is_gov_or_cctld (suffix_top_of ext)
      in run_checks [
           check_ip WEIGHTS DETECT_IP_URLS (pi_host (info p)),
           check_tld WEIGHTS SUSPICIOUS_TLDS ext,
           check_long_url WEIGHTS (original p),
           check_subdomains WEIGHTS (subdomain ext) gov,
           check_hyphen WEIGHTS (domain ext) gov,
           check_punycode WEIGHTS (pi_host (info p)),
           check_chars WEIGHTS (original p) gov,
           check_path_tokens L WEIGHTS SUSPICIOUS_PATH_TOKENS (pi_path (info p)),
           check_entropy WEIGHTS (pi_path (info p)) (pi_query (info p)) gov,
           check_whitelist L ROOT_DOMAIN_WHITELIST (pi_root_domain (info p)) gov,
           check_domain_patterns L WEIGHTS ROOT_DOMAIN_WHITELIST (pi_root_domain (info p)) (domain ext)
         ] acc0)"

record url_result = analysis +
  url :: pyval
  parsed :: "parsed_info option"

text \<open>The result for \<^verbatim>\<open>not url or not isinstance(url, str)\<close>.\<close>

definition invalid_url_result :: "pyval \<Rightarrow> url_result" where
  "invalid_url_result u =
     \<lparr> score = 100, verdict = ''phishing'', reasons = [''No URL provided or wrong type''],
       indicators = [''invalid_input'' \<mapsto> IBool True], url = u, parsed = None \<rparr>"

definition url_result_of :: "url_parts \<Rightarrow> acc \<Rightarrow> url_result" where
  "url_result_of p st =
     (let mapped = mapped_score (acc_score st)
      in \<lparr> score = mapped, verdict = verdict_of mapped,
           reasons = reasons_or_sentinel (acc_reasons st), indicators = acc_indicators st,
           url = PyStr (original p), parsed = Some (info p) \<rparr>)"

text \<open>
  \<^verbatim>\<open>analyze_url\<close>.  The rules are loaded first, then the argument is tested, then the
  URL is parsed and checked.
\<close>

definition analyze_url :: "libs \<Rightarrow> rules_file \<Rightarrow> pyval \<Rightarrow> pyerror + url_result" where
  "analyze_url L cfg u =
     bind_err (load_url_rules cfg) (\<lambda>rules.
       case u of
         PyStr s \<Rightarrow>
           if s = [] then Inr (invalid_url_result u)
           else bind_err (url_parts_of L s) (\<lambda>p.
                  bind_err (url_checks L rules p) (\<lambda>st. Inr (url_result_of p st)))
       | _ \<Rightarrow> Inr (invalid_url_result u))"

section \<open>The email analyzer\<close>

subsection \<open>Helper functions\<close>

definition extract_domain_from_email :: "string \<Rightarrow> string" where
  "extract_domain_from_email email =
     (if email = [] \<or> CHR ''@'' \<notin> set email then []
      else py_strip (py_lower (last (split_chr CHR ''@'' email))))"

text \<open>
  \<^verbatim>\<open>extract_links\<close>: \<^verbatim>\<open>re.findall\<close> of \<^verbatim>\<open>https?://\<close> followed by one character or more
  that is neither white space nor one of the eleven characters the class excludes (angle
  brackets, the double quote, braces, the bar, the backslash, the caret, the backquote and
  square brackets), with \<^verbatim>\<open>re.IGNORECASE\<close>.
\<close>

definition link_char :: "char \<Rightarrow> bool" where
  "link_char c = (\<not> is_space c \<and> c \<notin> set [CHR ''<'', CHR ''>'', CHR 0x22, CHR ''{'', CHR ''}'',
     CHR ''|'', CHR 0x5C, CHR ''^'', CHR 0x60, CHR ''['', CHR '']''])"

text \<open>The link that starts at the head of the text, if one does.\<close>

definition link_at :: "string \<Rightarrow> string option" where
  "link_at s =
     (let n = (if ci_prefix ''https://'' s then 8 else if ci_prefix ''http://'' s then 7 else 0);
          body = takeWhile link_char (drop n s)
      in if n = 0 \<or> body = [] then None else Some (take n s @ body))"

text \<open>The scan from left to right; \<open>k\<close> characters of the last match are still to be skipped.\<close>

fun find_links :: "nat \<Rightarrow> string \<Rightarrow> string list" where
  "find_links k [] = []"
| "find_links (Suc k) (c # cs) = find_links k cs"
| "find_links 0 (c # cs) =
     (case link_at (c # cs) of
        Some l \<Rightarrow> l # find_links (length l - 1) cs
      | None \<Rightarrow> find_links 0 cs)"

definition extract_links :: "string \<Rightarrow> string list" where
  "extract_links text = find_links 0 text"

text \<open>
  \<^verbatim>\<open>count_spelling_errors\<close>: the matches of \<^verbatim>\<open>[0-9]\<close>, and the matches, found from left
  to right without overlap, of three characters of \<^verbatim>\<open>[il1|]\<close> in a row; the flag
  \<^verbatim>\<open>re.IGNORECASE\<close> adds the capital letters I and L to the class.
\<close>

definition il_char :: "char \<Rightarrow> bool" where
  "il_char c = (c \<in> set [CHR ''i'', CHR ''l'', CHR ''1'', CHR ''|'', CHR ''I'', CHR ''L''])"

fun count_triples :: "string \<Rightarrow> nat" where
  "count_triples (a # b # c # cs) =
     (if il_char a \<and> il_char b \<and> il_char c then Suc (count_triples cs)
      else count_triples (b # c # cs))"
| "count_triples _ = 0"

definition count_spelling_errors :: "string \<Rightarrow> nat" where
  "count_spelling_errors text = length (filter is_digit text) + count_triples text"

definition generic_greetings :: "string list" where
  "generic_greetings = [''dear user'', ''dear customer'', ''dear sir/madam'', ''hello'', ''hi there'']"

definition is_generic_greeting :: "string \<Rightarrow> bool" where
  "is_generic_greeting text =
     (let text_lower = py_lower text
      in list_ex (\<lambda>greeting. str_in greeting (take 100 text_lower)) generic_greetings)"

text \<open>
  \<^verbatim>\<open>levenshtein_distance\<close>.  \<open>lev_inner\<close> is the inner loop, which appends to
  \<^verbatim>\<open>current_row\<close> for the characters of \<^verbatim>\<open>s2\<close> from index \<open>j\<close> on; \<open>lev_outer\<close> is the
  outer loop over \<^verbatim>\<open>enumerate(s1)\<close>.
\<close>

fun lev_inner :: "char \<Rightarrow> nat list \<Rightarrow> nat \<Rightarrow> string \<Rightarrow> nat list \<Rightarrow> nat list" where
  "lev_inner c1 previous_row j [] current_row = current_row"
| "lev_inner c1 previous_row j (c2 # s2) current_row =
     (let insertions = previous_row ! (j + 1) + 1;
          deletions = current_row ! j + 1;
          substitutions = previous_row ! j + (if c1 \<noteq> c2 then 1 else 0)
      in lev_inner c1 previous_row (j + 1) s2
           (current_row @ [min insertions (min deletions substitutions)]))"

fun lev_outer :: "nat \<Rightarrow> string \<Rightarrow> string \<Rightarrow> nat list \<Rightarrow> nat list" where
  "lev_outer i [] s2 previous_row = previous_row"
| "lev_outer i (c1 # s1) s2 previous_row =
     lev_outer (i + 1) s1 s2 (lev_inner c1 previous_row 0 s2 [i + 1])"

definition lev_rows :: "string \<Rightarrow> string \<Rightarrow> nat" where
  "lev_rows s1 s2 =
     (if length s2 = 0 then length s1
      else last (lev_outer 0 s1 s2 [0 ..< length s2 + 1]))"

text \<open>The one recursive call swaps the arguments, after which the first is the longer.\<close>

definition levenshtein_distance :: "string \<Rightarrow> string \<Rightarrow> nat" where
  "levenshtein_distance s1 s2 =
     (if length s1 < length s2 then lev_rows s2 s1 else lev_rows s1 s2)"

subsection \<open>The checks\<close>

text \<open>
  Check 0, the loop over \<^verbatim>\<open>TRUSTED_BRANDS\<close>: an exact match goes on to the next brand,
  a distance of 1 or 2 records the finding and leaves the loop.
\<close>

fun typosquat_scan :: "string \<Rightarrow> string \<Rightarrow> string list \<Rightarrow> acc \<Rightarrow> acc" where
  "typosquat_scan sender_domain sld [] st = st"
| "typosquat_scan sender_domain sld (brand # brands) st =
     (if sld = brand then typosquat_scan sender_domain sld brands st
      else
        (let dist = levenshtein_distance sld brand;
             is_typo = (if brand = ''the5ers'' then dist > 0 \<and> dist \<le> 2 else dist > 0 \<and> dist \<le> 2)
         in if is_typo then
              set_indicator ''typosquatting'' (IBool True)
                (add_score 75 (add_reason (''Typosquatting detected: '' @ quoted sender_domain
                   @ '' mimics trusted brand '' @ quoted brand) st))
            else typosquat_scan sender_domain sld brands st))"

definition check_typosquat :: "libs \<Rightarrow> string \<Rightarrow> acc \<Rightarrow> pyerror + acc" where
  "check_typosquat L sender_domain st =
     (if sender_domain \<noteq> [] then
        Inr (typosquat_scan sender_domain (py_lower (domain (tld_extract L sender_domain)))
               TRUSTED_BRANDS st)
      else Inr st)"

text \<open>Check 0.5, the loop over the brands for the local part of the address.\<close>

fun local_part_scan :: "libs \<Rightarrow> string \<Rightarrow> string \<Rightarrow> string list \<Rightarrow> acc \<Rightarrow> acc" where
  "local_part_scan L sender_domain local_part [] st = st"
| "local_part_scan L sender_domain local_part (brand # brands) st =
     (if brand \<in> set [''support'', ''noreply''] then
        local_part_scan L sender_domain local_part brands st
      else if str_in brand local_part then
        (let sender_sld = (if sender_domain \<noteq> []
                           then py_lower (domain (tld_extract L sender_domain)) else [])
         in if sender_sld \<noteq> brand then
              set_indicator ''brand_impersonation_local'' (IBool True)
                (add_score 55 (add_reason (''Trusted brand '' @ quoted brand
                   @ '' found in local-part of email (potential impersonation)'') st))
            else local_part_scan L sender_domain local_part brands st)
      else local_part_scan L sender_domain local_part brands st)"

definition check_local_part :: "libs \<Rightarrow> string \<Rightarrow> string \<Rightarrow> acc \<Rightarrow> pyerror + acc" where
  "check_local_part L sndr sender_domain st =
     (let local_part = (if CHR ''@'' \<in> set sndr then py_lower (hd (split_chr CHR ''@'' sndr)) else [])
      in if local_part \<noteq> []
         then Inr (local_part_scan L sender_domain local_part TRUSTED_BRANDS st)
         else Inr st)"

definition check_sender_domain :: "rules \<Rightarrow> string \<Rightarrow> acc \<Rightarrow> pyerror + acc" where
  "check_sender_domain rules sender_domain st =
     (let suspicious_sender_flag = (sender_domain \<in> set (get_list (suspicious_sender_domains rules)));
          st1 = set_indicator ''suspicious_sender_domain'' (IBool suspicious_sender_flag) st
      in if suspicious_sender_flag
         then fire EMAIL_WEIGHTS ''suspicious_sender_domain''
                (''Sender domain '' @ quoted sender_domain @ '' is commonly used in phishing'') st1
         else Inr st1)"

text \<open>
  Check 2, the loop over the links.  Its body stands in a \<^verbatim>\<open>try\<close> whose handler
  passes: a link that \<^verbatim>\<open>urlparse\<close> rejects is skipped, and so is a failed look-up of the
  weight, after the indicator and the reason are recorded.
\<close>

fun link_mismatch_scan :: "libs \<Rightarrow> string \<Rightarrow> string list \<Rightarrow> acc \<Rightarrow> acc" where
  "link_mismatch_scan L sender_domain [] st = st"
| "link_mismatch_scan L sender_domain (link # links) st =
     (case urlparse L link of
        Inl e \<Rightarrow> link_mismatch_scan L sender_domain links st
      | Inr parsed_url \<Rightarrow>
          (let link_domain = py_lower (netloc parsed_url);
               link_domain_clean = py_replace link_domain ''www.'' [];
               sender_domain_clean = py_replace sender_domain ''www.'' []
           in if link_domain_clean \<noteq> [] \<and> sender_domain_clean \<noteq> [] then
                (let link_extracted = tld_extract L link_domain;
                     sender_extracted = tld_extract L sender_domain;
                     link_root = py_lower (domain link_extracted @ ''.'' @ suffix link_extracted);
                     sender_root = py_lower (domain sender_extracted @ ''.'' @ suffix sender_extracted)
                 in if link_root \<noteq> sender_root \<and> link_root \<noteq> [] then
                      (let st1 = add_reason (''Link domain '' @ quoted link_root
                                   @ '' doesn'' @ [CHR 0x27] @ ''t match sender domain ''
                                   @ quoted sender_root)
                                   (set_indicator ''link_domain_mismatch'' (IBool True) st)
                       in case EMAIL_WEIGHTS ''link_domain_mismatch'' of
                            Some w \<Rightarrow> add_score w st1
                          | None \<Rightarrow> link_mismatch_scan L sender_domain links st1)
                    else link_mismatch_scan L sender_domain links st)
              else link_mismatch_scan L sender_domain links st))"

definition check_links :: "libs \<Rightarrow> rules \<Rightarrow> string \<Rightarrow> string \<Rightarrow> acc \<Rightarrow> pyerror + acc" where
  "check_links L rules sender_domain full_text st =
     (let links = extract_links full_text;
          st1 = set_indicator ''has_links'' (IBool (length links > 0)) st
      in if links \<noteq> [] then
           bind_err (fire EMAIL_WEIGHTS ''suspicious_link''
                       (''Found '' @ show_nat (length links) @ '' link(s) in email'') st1)
             (\<lambda>st2. if sender_domain \<noteq> [] \<and> get_flag (link_mismatch_detection rules)
                     then Inr (link_mismatch_scan L sender_domain links st2)
                     else Inr st2)
         else Inr st1)"

text \<open>The phrases of a list that occur in the text, each taken in lower case.\<close>

definition phrases_found :: "string list \<Rightarrow> string \<Rightarrow> string list" where
  "phrases_found phrases full_text = filter (\<lambda>phrase. str_in (py_lower phrase) full_text) phrases"

definition check_urgent :: "rules \<Rightarrow> string \<Rightarrow> acc \<Rightarrow> pyerror + acc" where
  "check_urgent rules full_text st =
     (let urgent_found = phrases_found (get_list (urgent_phrases rules)) full_text;
          st1 = set_indicator ''urgent_language'' (IBool (length urgent_found > 0)) st
      in if urgent_found \<noteq> []
         then fire EMAIL_WEIGHTS ''urgent_language''
                (''Urgent/fear-based language detected: '' @ py_join '', '' (take 3 urgent_found)) st1
         else Inr st1)"

definition check_info_request :: "rules \<Rightarrow> string \<Rightarrow> acc \<Rightarrow> pyerror + acc" where
  "check_info_request rules full_text st =
     (let info_found = phrases_found (get_list (info_request_phrases rules)) full_text;
          st1 = set_indicator ''info_request'' (IBool (length info_found > 0)) st
      in if info_found \<noteq> []
         then fire EMAIL_WEIGHTS ''info_request''
                (''Requests sensitive information: '' @ py_join '', '' (take 3 info_found)) st1
         else Inr st1)"

text \<open>
  Check 5: a dangerous extension at the end of an attachment's name, then, when no such
  attachment was found, a dangerous extension mentioned in the text, at half the weight.
\<close>

definition check_attachments :: "rules \<Rightarrow> string list \<Rightarrow> string \<Rightarrow> acc \<Rightarrow> pyerror + acc" where
  "check_attachments rules atts full_text st =
     (let dangerous_extensions = get_list (dangerous_attachments rules);
          dangerous = filter (\<lambda>att. list_ex (\<lambda>ext. endswith (py_lower att) (py_lower ext))
                                dangerous_extensions) atts;
          st1 = set_indicator ''dangerous_attachment'' (IBool (length dangerous > 0)) st
      in bind_err
           (if dangerous \<noteq> []
            then fire EMAIL_WEIGHTS ''dangerous_attachment''
                   (''Dangerous attachment(s) detected: '' @ py_join '', '' dangerous) st1
            else Inr st1)
           (\<lambda>st2. if list_ex (\<lambda>ext. str_in (py_lower ext) full_text) dangerous_extensions
                      \<and> \<not> (length dangerous > 0)
                   then bind_err (lookup EMAIL_WEIGHTS ''dangerous_attachment'')
                          (\<lambda>w. Inr (add_score (w * (1 / 2))
                                  (add_reason ''Email mentions dangerous file types'' st2)))
                   else Inr st2))"

definition email_promo_keywords :: "string list" where
  "email_promo_keywords = [''won'', ''reward'', ''free'', ''congratulations'', ''gift'', ''prize'',
     ''bonus'', ''lottery'']"

definition check_promo :: "string \<Rightarrow> acc \<Rightarrow> pyerror + acc" where
  "check_promo full_text st =
     (let promo_found = filter (\<lambda>kw. str_in kw full_text) email_promo_keywords;
          st1 = set_indicator ''too_good_to_be_true'' (IBool (length promo_found > 0)) st
      in if promo_found \<noteq> []
         then fire EMAIL_WEIGHTS ''too_good_to_be_true''
                (''Suspicious promotional language: '' @ py_join '', '' (take 3 promo_found)) st1
         else Inr st1)"

definition suspicious_subject_indicators :: "string list" where
  "suspicious_subject_indicators = [''urgent'', ''action required'', ''verify'', ''suspended'', ''locked'']"

definition check_subject :: "string \<Rightarrow> acc \<Rightarrow> pyerror + acc" where
  "check_subject subj st =
     (if subj \<noteq> [] \<and> list_ex (\<lambda>i. str_in i (py_lower subj)) suspicious_subject_indicators
      then fire EMAIL_WEIGHTS ''suspicious_subject'' ''Suspicious subject line detected''
             (set_indicator ''suspicious_subject'' (IBool True) st)
      else Inr st)"

definition check_spelling :: "string \<Rightarrow> acc \<Rightarrow> pyerror + acc" where
  "check_spelling sndr st =
     (if sndr \<noteq> [] then
        (let spelling_errors = count_spelling_errors sndr;
             st1 = set_indicator ''spelling_errors'' (IBool (spelling_errors > 0)) st
         in if spelling_errors > 0
            then fire EMAIL_WEIGHTS ''spelling_errors''
                   ''Potential spelling errors or typosquatting in sender address'' st1
            else Inr st1)
      else Inr st)"

definition check_greeting :: "string \<Rightarrow> acc \<Rightarrow> pyerror + acc" where
  "check_greeting body st =
     (if is_generic_greeting body
      then fire EMAIL_WEIGHTS ''generic_greeting'' ''Uses generic greeting instead of personal name''
             (set_indicator ''generic_greeting'' (IBool True) st)
      else Inr st)"

text \<open>
  The checks of \<^verbatim>\<open>analyze_email\<close> in the order of the source, on the normalised inputs:
  the sender, the subject and the content, each stripped, and the attachments.
\<close>

definition email_checks ::
  "libs \<Rightarrow> rules \<Rightarrow> string \<Rightarrow> string \<Rightarrow> string \<Rightarrow> string list \<Rightarrow> pyerror + acc" where
  "email_checks L rules sndr subj body atts =
     (let full_text = py_lower (subj @ '' '' @ body);
          sender_domain = extract_domain_from_email sndr
      in run_checks [
           check_typosquat L sender_domain,
           check_local_part L sndr sender_domain,
           check_sender_domain rules sender_domain,
           check_links L rules sender_domain full_text,
           check_urgent rules full_text,
           check_info_request rules full_text,
           check_attachments rules atts full_text,
           check_promo full_text,
           check_subject subj,
           check_spelling sndr,
           check_greeting body
         ] acc0)"

record message_result = analysis +
  sender :: string
  links_found :: "string list"

record email_result = message_result +
  subject :: string
  attachments_found :: "string list"

definition email_result_of :: "string \<Rightarrow> string \<Rightarrow> string \<Rightarrow> string list \<Rightarrow> acc \<Rightarrow> email_result" where
  "email_result_of sndr subj body atts st =
     (let mapped = mapped_score (acc_score st)
      in \<lparr> score = mapped, verdict = verdict_of mapped,
           reasons = reasons_or_sentinel (acc_reasons st), indicators = acc_indicators st,
           sender = sndr, links_found = extract_links (py_lower (subj @ '' '' @ body)),
           subject = subj, attachments_found = atts \<rparr>)"

text \<open>
  \<^verbatim>\<open>analyze_email\<close>; an argument left out is \<^verbatim>\<open>None\<close>.
\<close>

definition analyze_email ::
  "libs \<Rightarrow> rules_file \<Rightarrow> string option \<Rightarrow> string option \<Rightarrow> string option \<Rightarrow> string list option
     \<Rightarrow> pyerror + email_result" where
  "analyze_email L cfg sender_arg subject_arg content_arg attachments_arg =
     (let atts = (case attachments_arg of None \<Rightarrow> [] | Some xs \<Rightarrow> xs)
      in bind_err (load_email_rules cfg) (\<lambda>rules.
           let sndr = py_strip (or_empty sender_arg);
               subj = py_strip (or_empty subject_arg);
               body = py_strip (or_empty content_arg)
           in bind_err (email_checks L rules sndr subj body atts)
                (\<lambda>st. Inr (email_result_of sndr subj body atts st))))"

section \<open>The SMS analyzer\<close>

subsection \<open>Helper functions\<close>

definition suspicious_number_patterns :: "string list" where
  "suspicious_number_patterns = [''+000'', ''+999'', ''unknown'', ''private'', ''blocked'', ''anonymous'']"

definition is_suspicious_number :: "string \<Rightarrow> bool" where
  "is_suspicious_number num =
     (if num = [] then False
      else list_ex (\<lambda>pattern. str_in pattern (py_lower num)) suspicious_number_patterns)"

definition shortened_domains :: "string list" where
  "shortened_domains = [''bit.ly'', ''tinyurl.com'', ''t.co'', ''goo.gl'', ''ow.ly'', ''is.gd'',
     ''short.link'', ''rebrand.ly'', ''cutt.ly'', ''buff.ly'', ''adf.ly'',
     ''tiny.cc'', ''shorturl.at'', ''rb.gy'', ''bit.do'', ''shorte.st'']"

text \<open>\<^verbatim>\<open>is_shortened_url\<close>; an exception of \<^verbatim>\<open>urlparse\<close> gives \<^verbatim>\<open>False\<close>.\<close>

definition is_shortened_url :: "libs \<Rightarrow> string \<Rightarrow> bool" where
  "is_shortened_url L u =
     (case urlparse L u of
        Inl e \<Rightarrow> False
      | Inr parsed_url \<Rightarrow>
          (let dmn = py_replace (py_lower (netloc parsed_url)) ''www.'' []
           in list_ex (\<lambda>short_domain. str_in short_domain dmn) shortened_domains))"

text \<open>\<^verbatim>\<open>extract_domain_from_link\<close>; an exception gives the empty string.\<close>

definition extract_domain_from_link :: "libs \<Rightarrow> string \<Rightarrow> string" where
  "extract_domain_from_link L u =
     (case urlparse L u of
        Inl e \<Rightarrow> []
      | Inr parsed_url \<Rightarrow>
          (let host = py_lower (netloc parsed_url)
           in if host = [] then []
              else (let ext = tld_extract L host
                    in if domain ext \<noteq> [] \<and> suffix ext \<noteq> []
                       then domain ext @ ''.'' @ suffix ext
                       else host)))"

definition service_keywords :: "string list" where
  "service_keywords = [''bank'', ''paypal'', ''amazon'', ''apple'', ''google'', ''microsoft'',
     ''netflix'', ''pay'']"

definition check_sender_link_mismatch :: "libs \<Rightarrow> string \<Rightarrow> string list \<Rightarrow> bool" where
  "check_sender_link_mismatch L sndr links =
     (if sndr = [] \<or> links = [] then False
      else (let sender_lower = py_lower sndr
            in if \<not> list_ex (\<lambda>kw. str_in kw sender_lower) service_keywords then False
               else (let link_domains = filter (\<lambda>d. d \<noteq> []) (map (extract_domain_from_link L) links)
                     in list_ex (\<lambda>link_domain. link_domain \<noteq> [] \<and>
                          list_ex (\<lambda>kw. str_in kw sender_lower \<and> \<not> str_in kw link_domain)
                            service_keywords) link_domains)))"

text \<open>
  \<^verbatim>\<open>count_phishing_keywords\<close> counts, for each keyword, the matches of the keyword between
  two word boundaries \<^verbatim>\<open>\b\<close>, found from left to right without overlap.  \<open>word_boundary\<close>
  is \<^verbatim>\<open>\b\<close> between the character before a position and the character at it, each absent
  at an end of the text.
\<close>

definition word_boundary :: "char option \<Rightarrow> char option \<Rightarrow> bool" where
  "word_boundary l r =
     ((case l of None \<Rightarrow> False | Some c \<Rightarrow> is_word c)
        \<noteq> (case r of None \<Rightarrow> False | Some c \<Rightarrow> is_word c))"

definition head_opt :: "string \<Rightarrow> char option" where
  "head_opt s = (case s of [] \<Rightarrow> None | c # cs \<Rightarrow> Some c)"

definition keyword_at :: "string \<Rightarrow> char option \<Rightarrow> string \<Rightarrow> bool" where
  "keyword_at kw prev s =
     (startswith s kw \<and> word_boundary prev (head_opt s)
      \<and> word_boundary (if kw = [] then prev else Some (last kw)) (head_opt (drop (length kw) s)))"

fun count_keyword :: "string \<Rightarrow> char option \<Rightarrow> nat \<Rightarrow> string \<Rightarrow> nat" where
  "count_keyword kw prev k [] = (if k = 0 \<and> keyword_at kw prev [] then 1 else 0)"
| "count_keyword kw prev (Suc k) (c # cs) = count_keyword kw (Some c) k cs"
| "count_keyword kw prev 0 (c # cs) =
     (if keyword_at kw prev (c # cs)
      then 1 + count_keyword kw (Some c) (length kw - 1) cs
      else count_keyword kw (Some c) 0 cs)"

definition count_phishing_keywords :: "string \<Rightarrow> string list \<Rightarrow> nat" where
  "count_phishing_keywords text keywords =
     (let text_lower = py_lower text
      in sum_list (map (\<lambda>keyword. count_keyword keyword None 0 text_lower) keywords))"

text \<open>
  The number format \<^verbatim>\<open>^\+?[0-9\s\-\(\)]{7,}$\<close>: after a plus sign, if there is one, seven
  characters or more, each a digit, white space, a hyphen or a parenthesis.
\<close>

definition number_char :: "char \<Rightarrow> bool" where
  "number_char c = (is_digit c \<or> is_space c \<or> c = CHR ''-'' \<or> c = CHR ''('' \<or> c = CHR '')'')"

definition valid_number_format :: "string \<Rightarrow> bool" where
  "valid_number_format num =
     (let rest = (case num of [] \<Rightarrow> [] | c # cs \<Rightarrow> if c = CHR ''+'' then cs else num)
      in length rest \<ge> 7 \<and> list_all number_char rest)"

text \<open>The class of special characters of check 11.\<close>

definition special_chars :: "char list" where
  "special_chars = [CHR ''!'', CHR ''@'', CHR ''#'', CHR ''$'', CHR ''%'', CHR ''^'', CHR ''&'',
     CHR ''*'', CHR ''('', CHR '')'', CHR ''_'', CHR ''+'', CHR ''-'', CHR ''='', CHR ''['', CHR '']'',
     CHR ''{'', CHR ''}'', CHR '';'', CHR 0x27, CHR '':'', CHR 0x22, CHR 0x5C, CHR ''|'', CHR '','',
     CHR ''.'', CHR ''<'', CHR ''>'', CHR ''?'']"

subsection \<open>The checks\<close>

definition check_number :: "rules \<Rightarrow> (string \<rightharpoonup> rat) \<Rightarrow> string \<Rightarrow> acc \<Rightarrow> pyerror + acc" where
  "check_number rules W num st =
     (if num \<noteq> [] then
        (let suspicious_number_flag =
               (list_ex (\<lambda>pattern. str_in (py_lower pattern) (py_lower num))
                  (get_list (suspicious_numbers rules))
                \<or> is_suspicious_number num);
             st1 = set_indicator ''suspicious_sender_number'' (IBool suspicious_number_flag) st
         in bind_err
              (if suspicious_number_flag
               then fire W ''suspicious_sender_number''
                      (''Suspicious sender number: '' @ num @ '' (from sms_rules.json)'') st1
               else Inr st1)
              (\<lambda>st2. if \<not> valid_number_format num
                      then fire W ''invalid_number_format'' ''Invalid or unusual phone number format''
                             (set_indicator ''invalid_number_format'' (IBool True) st2)
                      else Inr st2))
      else Inr st)"

definition check_sms_links ::
  "libs \<Rightarrow> (string \<rightharpoonup> rat) \<Rightarrow> string \<Rightarrow> string \<Rightarrow> acc \<Rightarrow> pyerror + acc" where
  "check_sms_links L W sndr body st =
     (let links = extract_links body;
          st1 = set_indicator ''has_links'' (IBool (length links > 0)) st
      in if links \<noteq> [] then
           bind_err (fire W ''suspicious_link''
                       (''Found '' @ show_nat (length links) @ '' link(s) in SMS'') st1)
             (\<lambda>st2.
                let shortened_found = filter (is_shortened_url L) links
                in bind_err
                     (if shortened_found \<noteq> []
                      then fire W ''shortened_url''
                             (''Shortened URL(s) detected: '' @ py_join '', '' (take 2 shortened_found))
                             (set_indicator ''shortened_url'' (IBool True) st2)
                      else Inr st2)
                     (\<lambda>st3. if sndr \<noteq> [] \<and> check_sender_link_mismatch L sndr links
                             then fire W ''link_sender_mismatch''
                                    (''Links in SMS don'' @ [CHR 0x27]
                                       @ ''t match the claimed sender service'')
                                    (set_indicator ''link_sender_mismatch'' (IBool True) st3)
                             else Inr st3))
         else Inr st1)"

definition check_sms_urgent :: "rules \<Rightarrow> (string \<rightharpoonup> rat) \<Rightarrow> string \<Rightarrow> acc \<Rightarrow> pyerror + acc" where
  "check_sms_urgent rules W full_text st =
     (let urgent_found = phrases_found (get_list (urgent_phrases rules)) full_text;
          st1 = set_indicator ''urgent_language'' (IBool (length urgent_found > 0)) st
      in if urgent_found \<noteq> []
         then fire W ''urgent_language''
                (''Urgent/fear-based language detected: '' @ py_join '', '' (take 3 urgent_found)) st1
         else Inr st1)"

text \<open>
  Check 4 adds \<^verbatim>\<open>min(WEIGHTS["phishing_keywords"] * (keyword_count / 2),
  WEIGHTS["phishing_keywords"] * 2)\<close>.
\<close>

definition check_sms_keywords :: "rules \<Rightarrow> (string \<rightharpoonup> rat) \<Rightarrow> string \<Rightarrow> acc \<Rightarrow> pyerror + acc" where
  "check_sms_keywords rules W full_text st =
     (let keyword_count = count_phishing_keywords full_text (get_list (phishing_keywords rules));
          st1 = set_indicator ''phishing_keywords'' (IBool (keyword_count > 0)) st
      in if keyword_count > 0
         then bind_err (lookup W ''phishing_keywords'')
                (\<lambda>w. Inr (add_score (min (w * (of_nat keyword_count / 2)) (w * 2))
                        (add_reason (''Phishing-related keywords detected (''
                           @ show_nat keyword_count @ '' occurrences)'') st1)))
         else Inr st1)"

definition check_sms_unexpected :: "rules \<Rightarrow> (string \<rightharpoonup> rat) \<Rightarrow> string \<Rightarrow> acc \<Rightarrow> pyerror + acc" where
  "check_sms_unexpected rules W full_text st =
     (let unexpected_found = phrases_found (get_list (unexpected_action_phrases rules)) full_text;
          st1 = set_indicator ''unexpected_action'' (IBool (length unexpected_found > 0)) st
      in if unexpected_found \<noteq> []
         then fire W ''unexpected_action''
                (''Requests unexpected action: '' @ py_join '', '' (take 2 unexpected_found)) st1
         else Inr st1)"

definition info_keywords :: "string list" where
  "info_keywords = [''otp'', ''pin'', ''password'', ''security code'', ''verification code'', ''2fa code'']"

definition check_sms_info :: "(string \<rightharpoonup> rat) \<Rightarrow> string \<Rightarrow> acc \<Rightarrow> pyerror + acc" where
  "check_sms_info W full_text st =
     (let info_found = filter (\<lambda>kw. str_in kw full_text) info_keywords;
          st1 = set_indicator ''info_request'' (IBool (length info_found > 0)) st
      in if info_found \<noteq> []
         then fire W ''info_request''
                (''Requests sensitive information: '' @ py_join '', '' info_found) st1
         else Inr st1)"

definition sms_promo_keywords :: "string list" where
  "sms_promo_keywords = [''won'', ''reward'', ''free'', ''congratulations'', ''gift'', ''prize'',
     ''bonus'', ''lottery'', ''promo'']"

definition check_sms_promo :: "(string \<rightharpoonup> rat) \<Rightarrow> string \<Rightarrow> acc \<Rightarrow> pyerror + acc" where
  "check_sms_promo W full_text st =
     (let promo_found = filter (\<lambda>kw. str_in kw full_text) sms_promo_keywords;
          st1 = set_indicator ''too_good_to_be_true'' (IBool (length promo_found > 0)) st
      in if promo_found \<noteq> []
         then fire W ''too_good_to_be_true''
                (''Suspicious promotional language: '' @ py_join '', '' (take 3 promo_found)) st1
         else Inr st1)"

definition bank_keywords :: "string list" where
  "bank_keywords = [''bank'', ''account'', ''card'', ''payment'', ''transaction'', ''balance'']"

definition check_sms_bank :: "(string \<rightharpoonup> rat) \<Rightarrow> string \<Rightarrow> string \<Rightarrow> acc \<Rightarrow> pyerror + acc" where
  "check_sms_bank W sndr full_text st =
     (let bank_mentions = filter (\<lambda>kw. str_in kw full_text) bank_keywords
      in if bank_mentions \<noteq> []
            \<and> \<not> list_ex (\<lambda>kw. str_in kw (py_lower sndr)) [''bank'', ''financial'']
         then fire W ''bank_mention_mismatch''
                (''Mentions banking/financial terms but sender doesn'' @ [CHR 0x27]
                   @ ''t appear to be a bank'')
                (set_indicator ''bank_mention_without_legitimate_sender'' (IBool True) st)
         else Inr st)"

definition contact_words :: "string list" where
  "contact_words = [''call'', ''contact'', ''reply'', ''stop'', ''unsubscribe'']"

text \<open>Check 9 looks at the score accumulated so far.\<close>

definition check_sms_contact :: "(string \<rightharpoonup> rat) \<Rightarrow> string \<Rightarrow> acc \<Rightarrow> pyerror + acc" where
  "check_sms_contact W full_text st =
     (let has_contact_info = list_ex (\<lambda>w. str_in w full_text) contact_words;
          st1 = set_indicator ''no_contact_info'' (IBool (\<not> has_contact_info)) st
      in if \<not> has_contact_info \<and> acc_score st > 20
         then fire W ''no_contact_info'' ''No contact information or opt-out instructions'' st1
         else Inr st1)"

definition suspicious_sender_patterns :: "string list" where
  "suspicious_sender_patterns = [''bank'', ''paypal'', ''amazon'', ''apple'', ''google'',
     ''microsoft'', ''netflix'', ''uber'', ''whatsapp'']"

definition check_sms_sender_name :: "(string \<rightharpoonup> rat) \<Rightarrow> string \<Rightarrow> acc \<Rightarrow> pyerror + acc" where
  "check_sms_sender_name W sndr st =
     (if sndr \<noteq> [] \<and> list_ex (\<lambda>pattern. str_in pattern (py_lower sndr)) suspicious_sender_patterns
      then fire W ''suspicious_sender_name'' ''Sender name mimics well-known service''
             (set_indicator ''suspicious_sender_name'' (IBool True) st)
      else Inr st)"

text \<open>
  Check 11 reads its two weights with \<^verbatim>\<open>WEIGHTS.get\<close>, whose defaults are 10 and 8.  The
  two ratios are quotients of integers, compared here as rational numbers.
\<close>

definition check_sms_format :: "(string \<rightharpoonup> rat) \<Rightarrow> string \<Rightarrow> acc \<Rightarrow> pyerror + acc" where
  "check_sms_format W body st =
     (if body \<noteq> [] then
        (let special_char_ratio =
               (of_nat (length (filter (\<lambda>c. c \<in> set special_chars) body)) :: rat)
                 / of_nat (max (length body) 1);
             st1 = (if special_char_ratio > 15 / 100
                    then add_score (case W ''excessive_special_chars'' of None \<Rightarrow> 10 | Some w \<Rightarrow> w)
                           (add_reason ''Unusual formatting with excessive special characters''
                              (set_indicator ''excessive_special_chars'' (IBool True) st))
                    else st)
         in if length body > 10 then
              (let caps_ratio = (of_nat (length (filter is_upper body)) :: rat) / of_nat (length body)
               in if caps_ratio > 1 / 2
                  then Inr (add_score (case W ''excessive_caps'' of None \<Rightarrow> 8 | Some w \<Rightarrow> w)
                         (add_reason ''Message uses excessive capitalization''
                            (set_indicator ''excessive_caps'' (IBool True) st1)))
                  else Inr st1)
            else Inr st1)
      else Inr st)"

text \<open>
  The checks of \<^verbatim>\<open>analyze_sms\<close> in the order of the source, on the normalised inputs.
\<close>

definition sms_checks :: "libs \<Rightarrow> rules \<Rightarrow> string \<Rightarrow> string \<Rightarrow> string \<Rightarrow> pyerror + acc" where
  "sms_checks L rules sndr num body =
     (let WEIGHTS = sms_get_weights rules;
          full_text = py_lower body
      in run_checks [
           check_number rules WEIGHTS num,
           check_sms_links L WEIGHTS sndr body,
           check_sms_urgent rules WEIGHTS full_text,
           check_sms_keywords rules WEIGHTS full_text,
           check_sms_unexpected rules WEIGHTS full_text,
           check_sms_info WEIGHTS full_text,
           check_sms_promo WEIGHTS full_text,
           check_sms_bank WEIGHTS sndr full_text,
           check_sms_contact WEIGHTS full_text,
           check_sms_sender_name WEIGHTS sndr,
           check_sms_format WEIGHTS body
         ] acc0)"

record sms_result = message_result +
  number :: string
  content :: string

definition sms_result_of :: "string \<Rightarrow> string \<Rightarrow> string \<Rightarrow> acc \<Rightarrow> sms_result" where
  "sms_result_of sndr num body st =
     (let mapped = mapped_score (acc_score st)
      in \<lparr> score = mapped, verdict = verdict_of mapped,
           reasons = reasons_or_sentinel (acc_reasons st), indicators = acc_indicators st,
           sender = sndr, links_found = extract_links body,
           number = num, content = body \<rparr>)"

text \<open>\<^verbatim>\<open>analyze_sms\<close>; an argument left out is \<^verbatim>\<open>None\<close>.\<close>

definition analyze_sms ::
  "libs \<Rightarrow> rules_file \<Rightarrow> string option \<Rightarrow> string option \<Rightarrow> string option \<Rightarrow> pyerror + sms_result" where
  "analyze_sms L cfg sender_arg number_arg content_arg =
     bind_err (load_sms_rules cfg) (\<lambda>rules.
       let sndr = py_strip (or_empty sender_arg);
           num = py_strip (or_empty number_arg);
           body = py_strip (or_empty content_arg)
       in bind_err (sms_checks L rules sndr num body)
            (\<lambda>st. Inr (sms_result_of sndr num body st)))"

section \<open>A reference instance of the library interface\<close>

text \<open>
  The theorems below hold for every record of library functions, under the hypotheses on
  the libraries that they state.  To apply them to a concrete call, this section describes
  what the libraries compute on plain inputs: URLs of the shape
  \<^verbatim>\<open>scheme://netloc/path?query#fragment\<close> without user information and without
  brackets, escapes \<^verbatim>\<open>%XX\<close> below \<^verbatim>\<open>%80\<close>, host names under a short list of public
  suffixes, and strings short enough for \<^verbatim>\<open>difflib\<close> to treat no character as junk.
\<close>

subsection \<open>\<^verbatim>\<open>urllib.parse\<close>\<close>

definition is_ascii_letter :: "char \<Rightarrow> bool" where
  "is_ascii_letter c = (let n = cp c in (65 \<le> n \<and> n \<le> 90) \<or> (97 \<le> n \<and> n \<le> 122))"

definition scheme_char :: "char \<Rightarrow> bool" where
  "scheme_char c = (is_ascii_alnum c \<or> c = CHR ''+'' \<or> c = CHR ''-'' \<or> c = CHR ''.'')"

text \<open>The scheme before the first colon, in lower case, and what follows the colon.\<close>

definition ref_split_scheme :: "string \<Rightarrow> string \<times> string" where
  "ref_split_scheme u =
     (let pre = takeWhile (\<lambda>c. c \<noteq> CHR '':'') u
      in if length pre < length u \<and> pre \<noteq> [] \<and> is_ascii_letter (hd pre) \<and> list_all scheme_char pre
         then (py_lower pre, drop (length pre + 1) u)
         else ([], u))"

definition ref_port :: "string \<Rightarrow> pyerror + nat option" where
  "ref_port digits =
     (if digits = [] then Inr None
      else if list_all is_digit digits then
        (let n = foldl (\<lambda>acc c. 10 * acc + (cp c - 48)) 0 digits
         in if n \<le> 65535 then Inr (Some n) else Inl ValueError)
      else Inl ValueError)"

definition ref_urlparse :: "string \<Rightarrow> pyerror + parse_result" where
  "ref_urlparse u =
     (case ref_split_scheme u of
        (sch, rest) \<Rightarrow>
          (let has_netloc = startswith rest ''//'';
               loc = (if has_netloc
                      then takeWhile (\<lambda>c. c \<notin> set ''/?#'') (drop 2 rest) else []);
               after = (if has_netloc then drop (2 + length loc) rest else rest);
               no_fragment = takeWhile (\<lambda>c. c \<noteq> CHR ''#'') after;
               pth = takeWhile (\<lambda>c. c \<noteq> CHR ''?'') no_fragment;
               qry = drop (length pth + 1) no_fragment;
               host = takeWhile (\<lambda>c. c \<noteq> CHR '':'') loc;
               port_text = drop (length host + 1) loc
           in if (CHR ''['' \<in> set loc) \<noteq> (CHR '']'' \<in> set loc) then Inl ValueError
              else bind_err (ref_port port_text) (\<lambda>p.
                     Inr \<lparr> scheme = sch, netloc = loc,
                           hostname = (if host = [] then None else Some (py_lower host)),
                           path = pth, query = qry, port = p \<rparr>)))"

definition hex_value :: "char \<Rightarrow> nat option" where
  "hex_value c =
     (let n = cp c
      in if 48 \<le> n \<and> n \<le> 57 then Some (n - 48)
         else if 65 \<le> n \<and> n \<le> 70 then Some (n - 55)
         else if 97 \<le> n \<and> n \<le> 102 then Some (n - 87)
         else None)"

text \<open>An escape below \<^verbatim>\<open>%80\<close> is decoded; any other character is kept.\<close>

fun ref_unquote :: "string \<Rightarrow> string" where
  "ref_unquote (p # a # b # cs) =
     (case (if p = CHR ''%'' then hex_value a else None, hex_value b) of
        (Some x, Some y) \<Rightarrow>
          if 16 * x + y < 128 then char_of (16 * x + y) # ref_unquote cs
          else p # ref_unquote (a # b # cs)
      | _ \<Rightarrow> p # ref_unquote (a # b # cs))"
| "ref_unquote cs = cs"

subsection \<open>\<^verbatim>\<open>tldextract\<close>\<close>

text \<open>A few entries of the public suffix list.\<close>

definition ref_suffixes :: "string list" where
  "ref_suffixes = [''com'', ''org'', ''net'', ''edu'', ''gov'', ''io'', ''ly'', ''co'', ''uk'',
     ''co.uk'', ''de'', ''ru'', ''cn'', ''xyz'', ''top'']"

text \<open>
  The index of the first label of the longest public suffix that ends the host, or the
  number of labels when no suffix of the list ends it.
\<close>

fun ref_suffix_index :: "string list \<Rightarrow> nat" where
  "ref_suffix_index [] = 0"
| "ref_suffix_index (l # ls) =
     (if py_join ''.'' (map py_lower (l # ls)) \<in> set ref_suffixes then 0
      else Suc (ref_suffix_index ls))"

definition ref_tld_extract :: "string \<Rightarrow> extract_result" where
  "ref_tld_extract host =
     (let labels = split_chr CHR ''.'' host;
          i = ref_suffix_index labels
      in if is_ip host then \<lparr> subdomain = [], domain = host, suffix = [] \<rparr>
         else \<lparr> subdomain = (if i \<ge> 2 then py_join ''.'' (take (i - 1) labels) else []),
                domain = (if i > 0 then labels ! (i - 1) else []),
                suffix = (if i \<noteq> length labels then py_join ''.'' (drop i labels) else []) \<rparr>)"

subsection \<open>\<^verbatim>\<open>difflib.SequenceMatcher\<close>\<close>

fun common_prefix_len :: "string \<Rightarrow> string \<Rightarrow> nat" where
  "common_prefix_len (x # xs) (y # ys) = (if x = y then Suc (common_prefix_len xs ys) else 0)"
| "common_prefix_len _ _ = 0"

text \<open>
  \<^verbatim>\<open>find_longest_match\<close>: the longest block common to \<open>a\<close> and \<open>b\<close>, as its start in
  \<open>a\<close>, its start in \<open>b\<close> and its length; among the longest, the one that starts earliest
  in \<open>a\<close>, and then earliest in \<open>b\<close>.  The scan keeps the best block so far and replaces it
  only by a longer one.
\<close>

fun scan_b :: "string \<Rightarrow> nat \<Rightarrow> string \<Rightarrow> nat \<Rightarrow> nat \<times> nat \<times> nat \<Rightarrow> nat \<times> nat \<times> nat" where
  "scan_b sa i [] j best = best"
| "scan_b sa i (y # ys) j best =
     (let k = common_prefix_len sa (y # ys)
      in scan_b sa i ys (Suc j) (if k > snd (snd best) then (i, j, k) else best))"

fun scan_a :: "string \<Rightarrow> nat \<Rightarrow> string \<Rightarrow> nat \<times> nat \<times> nat \<Rightarrow> nat \<times> nat \<times> nat" where
  "scan_a [] i b best = best"
| "scan_a (x # xs) i b best = scan_a xs (Suc i) b (scan_b (x # xs) i b 0 best)"

definition find_longest_match :: "string \<Rightarrow> string \<Rightarrow> nat \<times> nat \<times> nat" where
  "find_longest_match a b = scan_a a 0 b (0, 0, 0)"

text \<open>
  The total size of the matching blocks: the longest block, then the blocks to its left
  and to its right.  Every block found is non-empty, so \<open>length a + length b\<close> steps
  suffice; the first argument counts them down.
\<close>

fun matching_size :: "nat \<Rightarrow> string \<Rightarrow> string \<Rightarrow> nat" where
  "matching_size 0 a b = 0"
| "matching_size (Suc n) a b =
     (case find_longest_match a b of
        (i, j, k) \<Rightarrow>
          if k = 0 then 0
          else k + matching_size n (take i a) (take j b)
                 + matching_size n (drop (i + k) a) (drop (j + k) b))"

definition ref_seq_ratio :: "string \<Rightarrow> string \<Rightarrow> rat" where
  "ref_seq_ratio a b =
     (let total = length a + length b
      in if total = 0 then 1
         else 2 * of_nat (matching_size total a b) / of_nat total)"

subsection \<open>The instance\<close>

definition ref_libs :: libs where
  "ref_libs = \<lparr> urlparse = ref_urlparse, unquote = ref_unquote, tld_extract = ref_tld_extract,
                seq_ratio = ref_seq_ratio, set_order = remdups \<rparr>"

section \<open>Predicates on checks\<close>

text \<open>
  A check is \<open>steady\<close> when it returns for every accumulated state and does not lower
  the score.  All checks of the email analyzer are steady, whatever the rules.
\<close>

definition steady :: "(acc \<Rightarrow> pyerror + acc) \<Rightarrow> bool" where
  "steady c = (\<forall>st. \<exists>st'. c st = Inr st' \<and> acc_score st \<le> acc_score st')"

text \<open>A check \<open>returns\<close> when it raises no exception, whatever the accumulated state.\<close>

definition returns :: "(acc \<Rightarrow> pyerror + acc) \<Rightarrow> bool" where
  "returns c = (\<forall>st. \<exists>st'. c st = Inr st')"

text \<open>A check \<open>gains w\<close> when it returns and raises the score by \<open>w\<close> at least.\<close>

definition gains :: "rat \<Rightarrow> (acc \<Rightarrow> pyerror + acc) \<Rightarrow> bool" where
  "gains w c = (\<forall>st. \<exists>st'. c st = Inr st' \<and> acc_score st + w \<le> acc_score st')"

text \<open>
  Two checks \<open>track\<close> each other at distance \<open>d\<close> above \<open>k\<close> when, run on two states
  whose scores differ by \<open>d\<close>, the lower one being \<open>k\<close> at least, both return and leave
  two such states again.
\<close>

definition tracks :: "rat \<Rightarrow> rat \<Rightarrow> (acc \<Rightarrow> pyerror + acc) \<Rightarrow> (acc \<Rightarrow> pyerror + acc) \<Rightarrow> bool" where
  "tracks d k c1 c2 =
     (\<forall>st1 st2. acc_score st1 = acc_score st2 + d \<and> k \<le> acc_score st2 \<longrightarrow>
        (\<exists>st1' st2'. c1 st1 = Inr st1' \<and> c2 st2 = Inr st2'
           \<and> acc_score st1' = acc_score st2' + d \<and> k \<le> acc_score st2'))"

section \<open>Properties of the accumulation\<close>


lemma bind_err_Inr_iff: "bind_err m f = Inr y \<longleftrightarrow> (\<exists>x. m = Inr x \<and> f x = Inr y)"
  by (cases m) (simp_all add: bind_err_def)

lemma bind_err_simps [simp]: "bind_err (Inr x) f = f x" "bind_err (Inl e) f = Inl e"
  by (simp_all add: bind_err_def)

lemma acc_simps [simp]:
  "acc_score (add_score w st) = acc_score st + w"
  "acc_score (add_reason r st) = acc_score st"
  "acc_score (set_indicator k v st) = acc_score st"
  "acc_reasons (add_score w st) = acc_reasons st"
  "acc_reasons (add_reason r st) = acc_reasons st @ [r]"
  "acc_reasons (set_indicator k v st) = acc_reasons st"
  "acc_indicators (add_score w st) = acc_indicators st"
  "acc_indicators (add_reason r st) = acc_indicators st"
  "acc_indicators (set_indicator k v st) = (acc_indicators st)(k \<mapsto> v)"
  by (simp_all add: add_score_def add_reason_def set_indicator_def)

lemma acc0_simps [simp]: "acc_score acc0 = 0" "acc_reasons acc0 = []" "acc_indicators acc0 = Map.empty"
  by (simp_all add: acc0_def)

lemma fire_Some: "W k = Some w \<Longrightarrow> fire W k r st = Inr (add_score w (add_reason r st))"
  by (simp add: fire_def lookup_def)


lemma steadyI: "(\<And>st. \<exists>st'. c st = Inr st' \<and> acc_score st \<le> acc_score st') \<Longrightarrow> steady c"
  by (simp add: steady_def)

lemma steadyD: "steady c \<Longrightarrow> \<exists>st'. c st = Inr st' \<and> acc_score st \<le> acc_score st'"
  by (simp add: steady_def)

lemma run_checks_steady:
  "list_all steady cs \<Longrightarrow> \<exists>st'. run_checks cs st = Inr st' \<and> acc_score st \<le> acc_score st'"
proof (induction cs arbitrary: st)
  case Nil
  then show ?case by simp
next
  case (Cons c cs)
  from Cons.prems have "steady c" and rest: "list_all steady cs" by simp_all
  then obtain st1 where c: "c st = Inr st1" and le1: "acc_score st \<le> acc_score st1"
    using steadyD by blast
  from Cons.IH [OF rest, of st1] obtain st2
    where r: "run_checks cs st1 = Inr st2" and le2: "acc_score st1 \<le> acc_score st2" by blast
  from c r le1 le2 show ?case by simp
qed

lemma email_weight_values:
  "EMAIL_WEIGHTS ''suspicious_sender_domain'' = Some 20"
  "EMAIL_WEIGHTS ''urgent_language'' = Some 20"
  "EMAIL_WEIGHTS ''info_request'' = Some 25"
  "EMAIL_WEIGHTS ''dangerous_attachment'' = Some 20"
  "EMAIL_WEIGHTS ''suspicious_link'' = Some 15"
  "EMAIL_WEIGHTS ''link_domain_mismatch'' = Some 20"
  "EMAIL_WEIGHTS ''too_good_to_be_true'' = Some 25"
  "EMAIL_WEIGHTS ''suspicious_subject'' = Some 10"
  "EMAIL_WEIGHTS ''spelling_errors'' = Some 25"
  "EMAIL_WEIGHTS ''generic_greeting'' = Some 5"
  by (simp_all add: EMAIL_WEIGHTS_def)

lemma typosquat_scan_score:
  "acc_score st \<le> acc_score (typosquat_scan d sld brands st)"
  by (induction brands) (auto simp: Let_def)

lemma steady_typosquat: "steady (check_typosquat L d)"
  by (rule steadyI) (simp add: check_typosquat_def typosquat_scan_score)

lemma local_part_scan_score:
  "acc_score st \<le> acc_score (local_part_scan L d lp brands st)"
  by (induction brands) (simp_all add: Let_def)

lemma steady_local_part: "steady (check_local_part L s d)"
  by (rule steadyI) (simp add: check_local_part_def Let_def local_part_scan_score)

lemma steady_sender_domain: "steady (check_sender_domain rules d)"
  by (rule steadyI) (simp add: check_sender_domain_def Let_def fire_Some email_weight_values)

lemma link_mismatch_scan_score:
  "acc_score st \<le> acc_score (link_mismatch_scan L d links st)"
  by (induction links arbitrary: st) (auto simp: Let_def email_weight_values split: sum.splits)

lemma steady_links: "steady (check_links L rules d t)"
  by (rule steadyI)
     (auto simp: check_links_def Let_def fire_Some email_weight_values
        intro: order_trans [OF _ link_mismatch_scan_score])

lemma steady_urgent: "steady (check_urgent rules t)"
  by (rule steadyI) (simp add: check_urgent_def Let_def fire_Some email_weight_values)

lemma steady_info_request: "steady (check_info_request rules t)"
  by (rule steadyI) (simp add: check_info_request_def Let_def fire_Some email_weight_values)

lemma steady_attachments: "steady (check_attachments rules a t)"
  by (rule steadyI)
     (simp add: check_attachments_def Let_def fire_Some lookup_def email_weight_values)

lemma steady_promo: "steady (check_promo t)"
  by (rule steadyI) (simp add: check_promo_def Let_def fire_Some email_weight_values)

lemma steady_subject: "steady (check_subject s)"
  by (rule steadyI) (simp add: check_subject_def Let_def fire_Some email_weight_values)

lemma steady_spelling: "steady (check_spelling s)"
  by (rule steadyI) (simp add: check_spelling_def Let_def fire_Some email_weight_values)

lemma steady_greeting: "steady (check_greeting b)"
  by (rule steadyI) (simp add: check_greeting_def Let_def fire_Some email_weight_values)

lemmas steady_email = steady_local_part steady_sender_domain steady_links steady_urgent
  steady_info_request steady_attachments steady_promo steady_subject steady_spelling
  steady_greeting

lemma email_checks_total:
  "\<exists>st. email_checks L rules s sj b a = Inr st \<and> 0 \<le> acc_score st"
  unfolding email_checks_def Let_def
  by (rule run_checks_steady [where st = acc0, simplified])
     (simp add: steady_typosquat steady_email)


subsection \<open>Checks that always return\<close>


lemma steady_returns: "steady c \<Longrightarrow> returns c"
  by (auto simp: steady_def returns_def)


subsection \<open>The SMS checks under the built-in weights\<close>

lemma sms_weight_values:
  "sms_default_weights ''suspicious_sender_number'' = Some 25"
  "sms_default_weights ''invalid_number_format'' = Some 10"
  "sms_default_weights ''shortened_url'' = Some 30"
  "sms_default_weights ''urgent_language'' = Some 20"
  "sms_default_weights ''phishing_keywords'' = Some 15"
  "sms_default_weights ''info_request'' = Some 30"
  "sms_default_weights ''unexpected_action'' = Some 25"
  "sms_default_weights ''too_good_to_be_true'' = Some 15"
  "sms_default_weights ''suspicious_link'' = Some 25"
  "sms_default_weights ''link_sender_mismatch'' = Some 30"
  "sms_default_weights ''bank_mention_mismatch'' = Some 15"
  "sms_default_weights ''suspicious_sender_name'' = Some 15"
  "sms_default_weights ''no_contact_info'' = Some 5"
  "sms_default_weights ''excessive_special_chars'' = Some 10"
  "sms_default_weights ''excessive_caps'' = Some 10"
  by (simp_all add: sms_default_weights_def)

lemma sms_default_get_weights: "sms_get_weights default_sms_rules = sms_default_weights"
  by (simp add: sms_get_weights_def default_sms_rules_def no_rules_def)

lemma steady_number: "steady (check_number rules sms_default_weights n)"
  by (rule steadyI) (simp add: check_number_def Let_def fire_Some sms_weight_values)

lemma steady_sms_links: "steady (check_sms_links L sms_default_weights s b)"
  by (rule steadyI) (simp add: check_sms_links_def Let_def fire_Some sms_weight_values)

lemma steady_sms_urgent: "steady (check_sms_urgent rules sms_default_weights t)"
  by (rule steadyI) (simp add: check_sms_urgent_def Let_def fire_Some sms_weight_values)

lemma steady_sms_keywords: "steady (check_sms_keywords rules sms_default_weights t)"
  by (rule steadyI) (simp add: check_sms_keywords_def Let_def lookup_def sms_weight_values)

lemma steady_sms_unexpected: "steady (check_sms_unexpected rules sms_default_weights t)"
  by (rule steadyI) (simp add: check_sms_unexpected_def Let_def fire_Some sms_weight_values)

lemma steady_sms_info: "steady (check_sms_info sms_default_weights t)"
  by (rule steadyI) (simp add: check_sms_info_def Let_def fire_Some sms_weight_values)

lemma steady_sms_promo: "steady (check_sms_promo sms_default_weights t)"
  by (rule steadyI) (simp add: check_sms_promo_def Let_def fire_Some sms_weight_values)

lemma steady_sms_bank: "steady (check_sms_bank sms_default_weights s t)"
  by (rule steadyI) (simp add: check_sms_bank_def Let_def fire_Some sms_weight_values)

lemma steady_sms_contact: "steady (check_sms_contact sms_default_weights t)"
  by (rule steadyI) (simp add: check_sms_contact_def Let_def fire_Some sms_weight_values)

lemma steady_sms_sender_name: "steady (check_sms_sender_name sms_default_weights s)"
  by (rule steadyI) (simp add: check_sms_sender_name_def Let_def fire_Some sms_weight_values)

lemma steady_sms_format: "steady (check_sms_format sms_default_weights b)"
  by (rule steadyI) (simp add: check_sms_format_def Let_def sms_weight_values)

lemmas steady_sms = steady_number steady_sms_links steady_sms_urgent steady_sms_keywords
  steady_sms_unexpected steady_sms_info steady_sms_promo steady_sms_bank steady_sms_contact
  steady_sms_sender_name steady_sms_format

lemma sms_checks_total:
  "\<exists>st. sms_checks L default_sms_rules s n b = Inr st \<and> 0 \<le> acc_score st"
  unfolding sms_checks_def Let_def sms_default_get_weights
  by (rule run_checks_steady [where st = acc0, simplified]) (simp add: steady_sms)

subsection \<open>The URL checks under the built-in weights\<close>


lemma url_default_get_weights: "url_get_weights default_url_rules = url_default_weights"
  by (simp add: url_get_weights_def default_url_rules_def no_rules_def)



subsection \<open>The shape of a result\<close>

lemma analyze_url_Inr:
  assumes "analyze_url L cfg u = Inr r"
  shows "(r = invalid_url_result u \<and> (u = PyStr [] \<or> (\<forall>s. u \<noteq> PyStr s))) \<or>
         (\<exists>rules s p st. load_url_rules cfg = Inr rules \<and> u = PyStr s \<and> s \<noteq> []
            \<and> url_parts_of L s = Inr p \<and> url_checks L rules p = Inr st \<and> r = url_result_of p st)"
  using assms by (cases u) (auto simp: analyze_url_def bind_err_Inr_iff split: if_splits)

lemma analyze_email_Inr:
  assumes "analyze_email L cfg sa sj ca aa = Inr r"
  shows "\<exists>rules st. load_email_rules cfg = Inr rules
           \<and> email_checks L rules (py_strip (or_empty sa)) (py_strip (or_empty sj))
               (py_strip (or_empty ca)) (case aa of None \<Rightarrow> [] | Some xs \<Rightarrow> xs) = Inr st
           \<and> r = email_result_of (py_strip (or_empty sa)) (py_strip (or_empty sj))
               (py_strip (or_empty ca)) (case aa of None \<Rightarrow> [] | Some xs \<Rightarrow> xs) st"
  using assms by (auto simp: analyze_email_def Let_def bind_err_Inr_iff)

lemma analyze_sms_Inr:
  assumes "analyze_sms L cfg sa na ca = Inr r"
  shows "\<exists>rules st. load_sms_rules cfg = Inr rules
           \<and> sms_checks L rules (py_strip (or_empty sa)) (py_strip (or_empty na))
               (py_strip (or_empty ca)) = Inr st
           \<and> r = sms_result_of (py_strip (or_empty sa)) (py_strip (or_empty na))
               (py_strip (or_empty ca)) st"
  using assms by (auto simp: analyze_sms_def Let_def bind_err_Inr_iff)

lemma result_fields [simp]:
  "score (url_result_of p st) = mapped_score (acc_score st)"
  "verdict (url_result_of p st) = verdict_of (mapped_score (acc_score st))"
  "reasons (url_result_of p st) = reasons_or_sentinel (acc_reasons st)"
  "score (email_result_of s sj b a st) = mapped_score (acc_score st)"
  "verdict (email_result_of s sj b a st) = verdict_of (mapped_score (acc_score st))"
  "reasons (email_result_of s sj b a st) = reasons_or_sentinel (acc_reasons st)"
  "score (sms_result_of s n b st) = mapped_score (acc_score st)"
  "verdict (sms_result_of s n b st) = verdict_of (mapped_score (acc_score st))"
  "reasons (sms_result_of s n b st) = reasons_or_sentinel (acc_reasons st)"
  by (simp_all add: url_result_of_def email_result_of_def sms_result_of_def Let_def)

lemma invalid_fields [simp]:
  "score (invalid_url_result u) = 100"
  "verdict (invalid_url_result u) = ''phishing''"
  "reasons (invalid_url_result u) = [''No URL provided or wrong type'']"
  by (simp_all add: invalid_url_result_def)

lemma mapped_score_range: "0 \<le> mapped_score s \<and> mapped_score s \<le> 100"
  unfolding mapped_score_def py_int_def Let_def
  by (auto simp: floor_le_iff le_floor_iff min_def max_def)

lemma mapped_score_low: "s \<le> 0 \<Longrightarrow> mapped_score s = 0"
  unfolding mapped_score_def py_int_def Let_def by (simp add: max_def)

lemma mapped_score_high: "100 \<le> s \<Longrightarrow> mapped_score s = 100"
  unfolding mapped_score_def py_int_def Let_def by (simp add: max_def min_def)

lemma mapped_score_mono: "a \<le> b \<Longrightarrow> mapped_score a \<le> mapped_score b"
  unfolding mapped_score_def py_int_def Let_def
  by (auto simp: max_def min_def intro: floor_mono)

lemma reasons_or_sentinel_nonempty: "reasons_or_sentinel rs \<noteq> []"
  by (simp add: reasons_or_sentinel_def)

lemma verdict_of_100: "verdict_of 100 = ''phishing''"
  by (simp add: verdict_of_def)

lemma analyze_email_total:
  assumes "load_email_rules cfg = Inr rules"
  shows "\<exists>r. analyze_email L cfg sa sj ca aa = Inr r"
  using assms email_checks_total [of L rules]
  by (simp add: analyze_email_def Let_def bind_err_Inr_iff) blast

lemma analyze_sms_total: "\<exists>r. analyze_sms L FileNotFound sa na ca = Inr r"
  using sms_checks_total [of L]
  by (simp add: analyze_sms_def Let_def bind_err_Inr_iff load_sms_rules_def) blast

lemma analyze_email_missing_total: "\<exists>r. analyze_email L FileNotFound sa sj ca aa = Inr r"
  by (rule analyze_email_total [of FileNotFound default_email_rules])
     (simp add: load_email_rules_def)


subsection \<open>Calls with every argument empty\<close>


lemma email_empty_checks:
  "\<exists>st. email_checks L default_email_rules [] [] [] [] = Inr st \<and> acc_score st = 0 \<and> acc_reasons st = []"
  by (simp add: email_checks_def check_typosquat_def check_local_part_def check_sender_domain_def
      check_links_def check_urgent_def check_info_request_def check_attachments_def check_promo_def
      check_subject_def check_spelling_def check_greeting_def extract_domain_from_email_def
      default_email_rules_def no_rules_def get_list_def get_flag_def
      py_lower_def lower_char_def is_upper_def cp_def extract_links_def link_at_def ci_prefix_def
      eq_ci_def phrases_found_def email_promo_keywords_def is_generic_greeting_def generic_greetings_def
      Let_def)

lemma sms_empty_checks:
  "\<exists>st. sms_checks L default_sms_rules [] [] [] = Inr st \<and> acc_score st = 0 \<and> acc_reasons st = []"
  by (simp add: sms_checks_def check_number_def check_sms_links_def check_sms_urgent_def
      check_sms_keywords_def check_sms_unexpected_def check_sms_info_def check_sms_promo_def
      check_sms_bank_def check_sms_contact_def check_sms_sender_name_def check_sms_format_def
      default_sms_rules_def no_rules_def get_list_def extract_links_def phrases_found_def
      count_phishing_keywords_def keyword_at_def info_keywords_def sms_promo_keywords_def
      bank_keywords_def contact_words_def py_lower_def lower_char_def is_upper_def cp_def Let_def)

lemma strip_empty [simp]: "py_strip [] = []" "or_empty None = []" "or_empty (Some s) = s"
  by (simp_all add: py_strip_def or_empty_def)

subsection \<open>Checks that raise the score by a known amount\<close>


lemma gainsI: "(\<And>st. \<exists>st'. c st = Inr st' \<and> acc_score st + w \<le> acc_score st') \<Longrightarrow> gains w c"
  by (simp add: gains_def)

lemma steady_gains: "steady c \<Longrightarrow> gains 0 c"
  by (simp add: steady_def gains_def)

lemma run_checks_gains:
  assumes "gains w c" and "k \<le> acc_score st"
    and "\<And>st1. k + w \<le> acc_score st1 \<Longrightarrow> \<exists>st'. run_checks cs st1 = Inr st' \<and> m \<le> acc_score st'"
  shows "\<exists>st'. run_checks (c # cs) st = Inr st' \<and> m \<le> acc_score st'"
proof -
  from assms(1) obtain st1 where c: "c st = Inr st1" and "acc_score st + w \<le> acc_score st1"
    by (auto simp: gains_def)
  with assms(2) have "k + w \<le> acc_score st1" by simp
  from assms(3) [OF this] c show ?thesis by simp
qed

lemma run_checks_steady_from:
  assumes "list_all steady cs" and "k \<le> acc_score st"
  shows "\<exists>st'. run_checks cs st = Inr st' \<and> k \<le> acc_score st'"
  using run_checks_steady [OF assms(1), of st] assms(2) by auto

lemma typosquat_scan_hit:
  assumes "b \<in> set brands" and "sld \<noteq> b"
    and "0 < levenshtein_distance sld b" and "levenshtein_distance sld b \<le> 2"
  shows "acc_score (typosquat_scan d sld brands st) = acc_score st + 75
         \<and> length (acc_reasons (typosquat_scan d sld brands st)) = Suc (length (acc_reasons st))"
  using assms by (induction brands) (auto simp: Let_def)

lemma local_part_scan_hit:
  assumes "b \<in> set brands" and "b \<noteq> ''support''" and "b \<noteq> ''noreply''" and "str_in b lp"
    and "(if d \<noteq> [] then py_lower (domain (tld_extract L d)) else []) \<noteq> b"
  shows "acc_score (local_part_scan L d lp brands st) = acc_score st + 55
         \<and> length (acc_reasons (local_part_scan L d lp brands st)) = Suc (length (acc_reasons st))"
  using assms by (induction brands) (auto simp: Let_def)

lemma mapped_score_75: "75 \<le> s \<Longrightarrow> 75 \<le> mapped_score s"
  using mapped_score_mono [of 75 s] by (simp add: mapped_score_def py_int_def)

lemma verdict_of_ge_65: "65 \<le> n \<Longrightarrow> verdict_of n = ''phishing''"
  by (simp add: verdict_of_def)

lemma steady_email_tail:
  "list_all steady [check_links L rules d t, check_urgent rules t, check_info_request rules t,
     check_attachments rules a t, check_promo t, check_subject sj, check_spelling s,
     check_greeting b]"
  by (simp add: steady_email)

lemma email_phishing_from_score:
  assumes "load_email_rules cfg = Inr rules"
    and "\<exists>st. email_checks L rules (py_strip (or_empty sa)) (py_strip (or_empty sj))
           (py_strip (or_empty ca)) (case aa of None \<Rightarrow> [] | Some xs \<Rightarrow> xs) = Inr st
           \<and> 75 \<le> acc_score st"
  shows "\<exists>r. analyze_email L cfg sa sj ca aa = Inr r \<and> verdict r = ''phishing'' \<and> 75 \<le> score r"
  using assms mapped_score_75
  by (auto simp: analyze_email_def Let_def verdict_of_ge_65 dest!: mapped_score_75)

subsection \<open>The two senders of the claims\<close>


lemma googie_facts:
  "py_strip ''admin@googie.com'' = ''admin@googie.com''"
  "extract_domain_from_email ''admin@googie.com'' = ''googie.com''"
  "py_lower ''googie'' = ''googie''"
  "levenshtein_distance ''googie'' ''google'' = 1"
  by code_simp+

lemma gmail_facts:
  "py_strip ''googlesecurity@gmail.com'' = ''googlesecurity@gmail.com''"
  "extract_domain_from_email ''googlesecurity@gmail.com'' = ''gmail.com''"
  "py_lower ''gmail'' = ''gmail''"
  "hd (split_chr CHR ''@'' ''googlesecurity@gmail.com'') = ''googlesecurity''"
  "py_lower ''googlesecurity'' = ''googlesecurity''"
  "str_in ''google'' ''googlesecurity''"
  by code_simp+

lemma typosquat_forces_phishing:
  assumes load: "load_email_rules cfg = Inr rules"
    and d: "extract_domain_from_email (py_strip (or_empty sa)) = d" "d \<noteq> []"
    and b: "b \<in> set TRUSTED_BRANDS" "py_lower (domain (tld_extract L d)) \<noteq> b"
      "0 < levenshtein_distance (py_lower (domain (tld_extract L d))) b"
      "levenshtein_distance (py_lower (domain (tld_extract L d))) b \<le> 2"
  shows "\<exists>r. analyze_email L cfg sa sj ca aa = Inr r \<and> verdict r = ''phishing'' \<and> 75 \<le> score r"
proof (rule email_phishing_from_score [OF load])
  have g: "gains 75 (check_typosquat L d)"
    by (rule gainsI) (simp add: check_typosquat_def d typosquat_scan_hit [OF b])
  show "\<exists>st. email_checks L rules (py_strip (or_empty sa)) (py_strip (or_empty sj))
           (py_strip (or_empty ca)) (case aa of None \<Rightarrow> [] | Some xs \<Rightarrow> xs) = Inr st
           \<and> 75 \<le> acc_score st"
    unfolding email_checks_def Let_def d
    apply (rule run_checks_gains [OF g, where k = 0])
     apply simp
    apply (rule run_checks_steady_from)
     apply (simp add: steady_email)
    apply simp
    done
qed

subsection \<open>The checks on a whitelisted address\<close>


lemma entropy_search: "entropy_score ''/search q=x'' \<le> 9 / 10"
proof -
  have l: "log 2 11 \<le> (5::real)"
    by (subst log_le_iff) simp_all
  have "entropy_score ''/search q=x'' = min (log 2 11 / 6) 1"
    by (simp add: entropy_score_def Let_def log_divide)
  with l show ?thesis by (simp add: min_def)
qed

lemma google_url_facts:
  "py_strip ''https://www.google.com/search?q=x'' = ''https://www.google.com/search?q=x''"
  "str_in ''://'' ''https://www.google.com/search?q=x''"
  "\<not> is_ip ''www.google.com''"
  "suffix_top_of \<lparr>subdomain = ''www'', domain = ''google'', suffix = ''com''\<rparr> = ''com''"
  "\<not> is_gov_or_cctld ''com''"
  "''com'' \<notin> set (map (\<lambda>tld. py_replace tld ''.'' []) (get_list (suspicious_tlds default_url_rules)))"
  "sub_count_of ''www'' = 0"
  "\<not> contains_punycode ''www.google.com''"
  "\<not> list_ex (\<lambda>c. c \<in> set suspicious_char_class) ''https://www.google.com/search?q=x''"
  "filter (\<lambda>t. t \<in> set (get_list (phishing_keywords default_url_rules)))
     (remdups (runs token_char [] (py_lower ''/search''))) = []"
  "py_strip (''/search'' @ '' '' @ ''q=x'') = ''/search q=x''"
  "py_lower ''google.com'' = ''google.com''"
  "first_pattern suspicious_patterns (split_on (\<lambda>c. c = CHR ''-'' \<or> c = CHR ''.'') ''google'') = None"
  "\<not> list_ex (\<lambda>tok. length tok > 20) (split_on (\<lambda>c. c = CHR ''-'' \<or> c = CHR ''.'') ''google'')"
  "get_flag (detect_ip_urls default_url_rules)"
  by code_simp+


lemma similar_exact_match:
  assumes "d \<in> set ws"
    and "\<forall>w \<in> set ws. w \<noteq> d \<longrightarrow>
           seq_ratio L d w < 4 / 5
           \<and> \<not> ((length d = Suc (length w) \<or> length w = Suc (length d)) \<and> (str_in w d \<or> str_in d w))
           \<and> \<not> (length d > 5 \<and> length w > 5 \<and> (tl d = tl w \<or> butlast d = butlast w))"
  shows "is_similar_to_whitelisted L d ws = (True, Some d)"
  using assms
proof (induction ws)
  case Nil
  then show ?case by simp
next
  case (Cons w ws)
  show ?case
  proof (cases "w = d")
    case True
    then show ?thesis by simp
  next
    case False
    with Cons.prems have "d \<in> set ws" by simp
    moreover from Cons.prems have "\<forall>w \<in> set ws. w \<noteq> d \<longrightarrow>
           seq_ratio L d w < 4 / 5
           \<and> \<not> ((length d = Suc (length w) \<or> length w = Suc (length d)) \<and> (str_in w d \<or> str_in d w))
           \<and> \<not> (length d > 5 \<and> length w > 5 \<and> (tl d = tl w \<or> butlast d = butlast w))"
      by simp
    ultimately have ih: "is_similar_to_whitelisted L d ws = (True, Some d)"
      by (rule Cons.IH)
    from Cons.prems False have
      "seq_ratio L d w < 4 / 5"
      "\<not> ((length d = Suc (length w) \<or> length w = Suc (length d)) \<and> (str_in w d \<or> str_in d w))"
      "\<not> (length d > 5 \<and> length w > 5 \<and> (tl d = tl w \<or> butlast d = butlast w))"
      by simp_all
    with False ih show ?thesis by (simp add: not_le [symmetric] del: not_le)
  qed
qed

lemma google_no_mimic:
  "\<forall>w \<in> set (get_list (trusted_domains default_url_rules)). w \<noteq> ''google.com'' \<longrightarrow>
     \<not> ((length ''google.com'' = Suc (length w) \<or> length w = Suc (length ''google.com''))
          \<and> (str_in w ''google.com'' \<or> str_in ''google.com'' w))
     \<and> \<not> (length ''google.com'' > 5 \<and> length w > 5
          \<and> (tl ''google.com'' = tl w \<or> butlast ''google.com'' = butlast w))"
  by code_simp

lemma google_in_whitelist: "''google.com'' \<in> set (get_list (trusted_domains default_url_rules))"
  by code_simp

lemma default_url_lists:
  "get_list (trusted_domains default_url_rules) = [''google.com'', ''paypal.com'', ''facebook.com'',
     ''youtube.com'', ''amazon.com'', ''netflix.com'', ''microsoft.com'', ''apple.com'',
     ''github.com'', ''linkedin.com'']"
  by (simp add: default_url_rules_def no_rules_def get_list_def)

lemma google_gov:
  "is_gov_or_cctld (suffix_top_of \<lparr>subdomain = ''www'', domain = ''google'', suffix = ''com''\<rparr>) = False"
  by (simp only: google_url_facts)

lemma google_check_results:
  "check_ip url_default_weights (get_flag (detect_ip_urls default_url_rules)) ''www.google.com'' st
     = Inr (set_indicator ''ip_in_host'' (IBool False) st)"
  "check_tld url_default_weights
      (map (\<lambda>tld. py_replace tld ''.'' []) (get_list (suspicious_tlds default_url_rules)))
      \<lparr>subdomain = ''www'', domain = ''google'', suffix = ''com''\<rparr> st
     = Inr (set_indicator ''suspicious_tld'' (IBool False) st)"
  "check_long_url url_default_weights ''https://www.google.com/search?q=x'' st
     = Inr (set_indicator ''long_url'' (IBool False) st)"
  "check_subdomains url_default_weights ''www'' False st
     = Inr (set_indicator ''many_subdomains'' (IBool False) st)"
  "check_hyphen url_default_weights ''google'' False st
     = Inr (set_indicator ''hyphen_in_domain'' (IBool False) st)"
  "check_punycode url_default_weights ''www.google.com'' st
     = Inr (set_indicator ''punycode'' (IBool False) st)"
  "check_chars url_default_weights ''https://www.google.com/search?q=x'' False st
     = Inr (set_indicator ''suspicious_chars'' (IBool False) st)"
  "check_path_tokens L url_default_weights (get_list (phishing_keywords default_url_rules))
      ''/search'' st
     = Inr (set_indicator ''suspicious_path_tokens'' (ITokens (set_order L [])) st)"
  "check_entropy url_default_weights ''/search'' ''q=x'' False st
     = Inr (set_indicator ''entropy_score'' (IFloat (entropy_score ''/search q=x'')) st)"
proof -
  have ent: "(9 / 10 < entropy_score ''/search q=x'') = False"
    using entropy_search by simp
  show "check_ip url_default_weights (get_flag (detect_ip_urls default_url_rules)) ''www.google.com'' st
     = Inr (set_indicator ''ip_in_host'' (IBool False) st)"
    by (simp only: check_ip_def Let_def google_url_facts if_True if_False)
  show "check_tld url_default_weights
      (map (\<lambda>tld. py_replace tld ''.'' []) (get_list (suspicious_tlds default_url_rules)))
      \<lparr>subdomain = ''www'', domain = ''google'', suffix = ''com''\<rparr> st
     = Inr (set_indicator ''suspicious_tld'' (IBool False) st)"
    by (simp only: check_tld_def Let_def google_url_facts if_True if_False simp_thms)
  show "check_long_url url_default_weights ''https://www.google.com/search?q=x'' st
     = Inr (set_indicator ''long_url'' (IBool False) st)"
    by (simp add: check_long_url_def Let_def)
  show "check_subdomains url_default_weights ''www'' False st
     = Inr (set_indicator ''many_subdomains'' (IBool False) st)"
    by (simp add: check_subdomains_def Let_def google_url_facts)
  show "check_hyphen url_default_weights ''google'' False st
     = Inr (set_indicator ''hyphen_in_domain'' (IBool False) st)"
    by (simp add: check_hyphen_def Let_def)
  show "check_punycode url_default_weights ''www.google.com'' st
     = Inr (set_indicator ''punycode'' (IBool False) st)"
    by (simp only: check_punycode_def Let_def google_url_facts if_True if_False)
  show "check_chars url_default_weights ''https://www.google.com/search?q=x'' False st
     = Inr (set_indicator ''suspicious_chars'' (IBool False) st)"
    by (simp only: check_chars_def Let_def google_url_facts if_True if_False simp_thms)
  show "check_path_tokens L url_default_weights (get_list (phishing_keywords default_url_rules))
      ''/search'' st
     = Inr (set_indicator ''suspicious_path_tokens'' (ITokens (set_order L [])) st)"
    by (simp only: check_path_tokens_def Let_def google_url_facts if_True if_False simp_thms)
  show "check_entropy url_default_weights ''/search'' ''q=x'' False st
     = Inr (set_indicator ''entropy_score'' (IFloat (entropy_score ''/search q=x'')) st)"
    by (simp only: check_entropy_def Let_def google_url_facts ent if_True if_False simp_thms)
qed

lemma google_checks:
  assumes parse: "urlparse L ''https://www.google.com/search?q=x'' = Inr parsed_url"
      "hostname parsed_url = Some ''www.google.com''" "path parsed_url = ''/search''"
      "query parsed_url = ''q=x''"
    and unq: "unquote L ''/search'' = ''/search''"
    and tld: "tld_extract L ''www.google.com''
                = \<lparr>subdomain = ''www'', domain = ''google'', suffix = ''com''\<rparr>"
    and order: "set (set_order L (get_list (trusted_domains default_url_rules)))
                = set (get_list (trusted_domains default_url_rules))"
    and ratio: "\<forall>w \<in> set (get_list (trusted_domains default_url_rules)).
                  w \<noteq> ''google.com'' \<longrightarrow> seq_ratio L ''google.com'' w < 4 / 5"
  shows "\<exists>p st. url_parts_of L ''https://www.google.com/search?q=x'' = Inr p
           \<and> url_checks L default_url_rules p = Inr st
           \<and> acc_score st = - 40
           \<and> acc_reasons st = [''Trust verified: Result is within a secure/official name space (''
                @ quoted ''google.com'' @ '')'']"
proof -
  let ?WL = "get_list (trusted_domains default_url_rules)"
  have sim: "is_similar_to_whitelisted L ''google.com'' (set_order L ?WL) = (True, Some ''google.com'')"
    by (rule similar_exact_match) (use order ratio google_no_mimic google_in_whitelist in auto)
  have wl: "check_whitelist L ?WL ''google.com'' False st
     = Inr (add_score (- 40) (add_reason
         (''Trust verified: Result is within a secure/official name space (''
            @ quoted ''google.com'' @ '')'')
         (set_indicator ''known_whitelist'' (IBool True) st)))" for st
    by (simp only: check_whitelist_def Let_def google_url_facts sim prod.case if_True simp_thms)
  have pat: "check_domain_patterns L url_default_weights ?WL ''google.com'' ''google'' st
     = Inr (set_indicator ''suspicious_domain_token_long'' (IBool False) st)" for st
    by (simp only: check_domain_patterns_def Let_def google_url_facts sim prod.case if_True
        if_False simp_thms option.case)
  have p: "url_parts_of L ''https://www.google.com/search?q=x'' =
      Inr \<lparr>original = ''https://www.google.com/search?q=x'',
            extracted = \<lparr>subdomain = ''www'', domain = ''google'', suffix = ''com''\<rparr>,
            info = \<lparr>pi_scheme = scheme parsed_url, pi_host = ''www.google.com'',
                     pi_root_domain = ''google.com'', pi_subdomain = ''www'', pi_path = ''/search'',
                     pi_query = ''q=x'', pi_port = port parsed_url\<rparr>\<rparr>"
    by (simp add: url_parts_of_def google_url_facts parse unq tld Let_def)
  show ?thesis
    unfolding p
    apply (simp only: url_checks_def url_default_get_weights Let_def url_parts.simps
        parsed_info.simps extract_result.simps sum.inject simp_thms ex_simps google_gov)
    apply (simp add: google_check_results wl pat)
    done
qed

lemma ref_libs_google:
  "urlparse ref_libs ''https://www.google.com/search?q=x''
     = Inr \<lparr>scheme = ''https'', netloc = ''www.google.com'', hostname = Some ''www.google.com'',
            path = ''/search'', query = ''q=x'', port = None\<rparr>"
  "unquote ref_libs ''/search'' = ''/search''"
  "tld_extract ref_libs ''www.google.com''
     = \<lparr>subdomain = ''www'', domain = ''google'', suffix = ''com''\<rparr>"
  "list_all (\<lambda>w. seq_ratio ref_libs ''google.com'' w < 4 / 5)
     (remove1 ''google.com'' (get_list (trusted_domains default_url_rules)))"
  by code_simp+


subsection \<open>Two messages that differ in one check\<close>

lemma tracksI:
  "(\<And>st1 st2. acc_score st1 = acc_score st2 + d \<Longrightarrow> k \<le> acc_score st2 \<Longrightarrow>
      \<exists>st1' st2'. c1 st1 = Inr st1' \<and> c2 st2 = Inr st2'
           \<and> acc_score st1' = acc_score st2' + d \<and> k \<le> acc_score st2') \<Longrightarrow> tracks d k c1 c2"
  by (simp add: tracks_def)

lemma run_checks_tracks:
  assumes "list_all2 (tracks d k) cs1 cs2"
    and "acc_score st1 = acc_score st2 + d" and "k \<le> acc_score st2"
  shows "\<exists>st1' st2'. run_checks cs1 st1 = Inr st1' \<and> run_checks cs2 st2 = Inr st2'
           \<and> acc_score st1' = acc_score st2' + d \<and> k \<le> acc_score st2'"
  using assms
proof (induction cs1 cs2 arbitrary: st1 st2 rule: list_all2_induct)
  case Nil
  then show ?case by simp
next
  case (Cons c1 cs1 c2 cs2)
  from Cons.hyps(1) Cons.prems obtain m1 m2
    where m: "c1 st1 = Inr m1" "c2 st2 = Inr m2"
      and s: "acc_score m1 = acc_score m2 + d" "k \<le> acc_score m2"
    unfolding tracks_def by blast
  from Cons.IH [OF s] m show ?case by simp
qed

lemma tracks_sms_urgent:
  assumes "(phrases_found (get_list (urgent_phrases rules)) t1 = [])
         = (phrases_found (get_list (urgent_phrases rules)) t2 = [])"
  shows "tracks d k (check_sms_urgent rules sms_default_weights t1)
                    (check_sms_urgent rules sms_default_weights t2)"
  using assms
  by (intro tracksI) (simp add: check_sms_urgent_def Let_def fire_Some sms_weight_values)

lemma tracks_sms_keywords:
  assumes "count_phishing_keywords t1 (get_list (phishing_keywords rules))
         = count_phishing_keywords t2 (get_list (phishing_keywords rules))"
  shows "tracks d k (check_sms_keywords rules sms_default_weights t1)
                    (check_sms_keywords rules sms_default_weights t2)"
  using assms
  by (intro tracksI)
    (auto simp: check_sms_keywords_def Let_def lookup_def sms_weight_values min_def
      intro!: add_increasing2)

lemma tracks_sms_unexpected:
  assumes "(phrases_found (get_list (unexpected_action_phrases rules)) t1 = [])
         = (phrases_found (get_list (unexpected_action_phrases rules)) t2 = [])"
  shows "tracks d k (check_sms_unexpected rules sms_default_weights t1)
                    (check_sms_unexpected rules sms_default_weights t2)"
  using assms
  by (intro tracksI) (simp add: check_sms_unexpected_def Let_def fire_Some sms_weight_values)

lemma tracks_sms_info:
  assumes "(filter (\<lambda>kw. str_in kw t1) info_keywords = [])
         = (filter (\<lambda>kw. str_in kw t2) info_keywords = [])"
  shows "tracks d k (check_sms_info sms_default_weights t1) (check_sms_info sms_default_weights t2)"
  using assms
  by (intro tracksI) (simp add: check_sms_info_def Let_def fire_Some sms_weight_values)

lemma tracks_sms_promo:
  assumes "(filter (\<lambda>kw. str_in kw t1) sms_promo_keywords = [])
         = (filter (\<lambda>kw. str_in kw t2) sms_promo_keywords = [])"
  shows "tracks d k (check_sms_promo sms_default_weights t1) (check_sms_promo sms_default_weights t2)"
  using assms
  by (intro tracksI) (simp add: check_sms_promo_def Let_def fire_Some sms_weight_values)

lemma tracks_sms_bank:
  assumes "(filter (\<lambda>kw. str_in kw t1) bank_keywords = [])
         = (filter (\<lambda>kw. str_in kw t2) bank_keywords = [])"
  shows "tracks d k (check_sms_bank sms_default_weights s t1) (check_sms_bank sms_default_weights s t2)"
  using assms
  by (intro tracksI) (simp add: check_sms_bank_def Let_def fire_Some sms_weight_values)

lemma tracks_sms_contact:
  assumes "list_ex (\<lambda>w. str_in w t1) contact_words = list_ex (\<lambda>w. str_in w t2) contact_words"
    and "0 \<le> d" and "20 < k"
  shows "tracks d k (check_sms_contact sms_default_weights t1)
                    (check_sms_contact sms_default_weights t2)"
  using assms
  by (intro tracksI) (simp add: check_sms_contact_def Let_def fire_Some sms_weight_values)

lemma tracks_sms_sender_name:
  "tracks d k (check_sms_sender_name sms_default_weights s) (check_sms_sender_name sms_default_weights s)"
  by (intro tracksI) (simp add: check_sms_sender_name_def Let_def fire_Some sms_weight_values)

lemma tracks_sms_format:
  assumes "b1 \<noteq> []" "b2 \<noteq> []"
    and "(15 / 100 < (of_nat (length (filter (\<lambda>c. c \<in> set special_chars) b1)) :: rat)
                        / of_nat (max (length b1) 1))
       = (15 / 100 < (of_nat (length (filter (\<lambda>c. c \<in> set special_chars) b2)) :: rat)
                        / of_nat (max (length b2) 1))"
    and "(length b1 > 10 \<and> 1 / 2 < (of_nat (length (filter is_upper b1)) :: rat) / of_nat (length b1))
       = (length b2 > 10 \<and> 1 / 2 < (of_nat (length (filter is_upper b2)) :: rat) / of_nat (length b2))"
  shows "tracks d k (check_sms_format sms_default_weights b1) (check_sms_format sms_default_weights b2)"
  apply (intro tracksI)
  using assms
  apply (simp add: check_sms_format_def Let_def sms_weight_values)
  apply (auto)
  done

lemma mapped_score_shift:
  assumes "0 \<le> x"
  shows "mapped_score (x + 30) = min 100 (mapped_score x + 30)"
proof (cases "70 \<le> x")
  case True
  then have "mapped_score (x + 30) = 100" by (simp add: mapped_score_high)
  moreover from True have "70 \<le> mapped_score x"
    using mapped_score_mono [of 70 x] by (simp add: mapped_score_def py_int_def)
  ultimately show ?thesis by simp
next
  case False
  with assms have "mapped_score x = \<lfloor>x\<rfloor>" "mapped_score (x + 30) = \<lfloor>x + 30\<rfloor>"
    by (simp_all add: mapped_score_def py_int_def max_def min_def)
  moreover have "\<lfloor>x + 30\<rfloor> = \<lfloor>x\<rfloor> + 30" by simp
  moreover from False have "\<lfloor>x\<rfloor> < 70" by (simp add: floor_less_iff)
  ultimately show ?thesis by simp
qed

lemma bitly_is_shortened:
  assumes "urlparse L l = Inr p"
    and "str_in ''bit.ly'' (py_replace (py_lower (netloc p)) ''www.'' [])"
  shows "is_shortened_url L l"
  using assms by (simp add: is_shortened_url_def shortened_domains_def)

lemma sms_links_shift:
  assumes sh: "list_ex (is_shortened_url L) (extract_links b1)"
    and l2: "extract_links b2 \<noteq> []"
    and ns: "\<not> list_ex (is_shortened_url L) (extract_links b2)"
    and mm: "check_sender_link_mismatch L s (extract_links b1)
           = check_sender_link_mismatch L s (extract_links b2)"
    and st: "0 \<le> acc_score st"
  shows "\<exists>st1 st2. check_sms_links L sms_default_weights s b1 st = Inr st1
           \<and> check_sms_links L sms_default_weights s b2 st = Inr st2
           \<and> acc_score st1 = acc_score st2 + 30 \<and> 25 \<le> acc_score st2"
proof -
  from sh have l1: "extract_links b1 \<noteq> []" by auto
  from sh have f1: "filter (is_shortened_url L) (extract_links b1) \<noteq> []"
    by (simp add: filter_empty_conv list_ex_iff)
  from ns have f2: "filter (is_shortened_url L) (extract_links b2) = []"
    by (simp add: filter_empty_conv list_ex_iff)
  from st show ?thesis
    by (simp add: check_sms_links_def Let_def fire_Some sms_weight_values l1 l2 f1 f2 mm)
qed

lemma sms_checks_shift:
  assumes sh: "list_ex (is_shortened_url L) (extract_links b1)"
    and l2: "extract_links b2 \<noteq> []"
    and ns: "\<not> list_ex (is_shortened_url L) (extract_links b2)"
    and mm: "check_sender_link_mismatch L s (extract_links b1)
           = check_sender_link_mismatch L s (extract_links b2)"
    and ph: "\<forall>kw \<in> set (map py_lower (get_list (urgent_phrases default_sms_rules))
                 @ map py_lower (get_list (unexpected_action_phrases default_sms_rules))
                 @ info_keywords @ sms_promo_keywords @ bank_keywords @ contact_words).
               str_in kw (py_lower b1) = str_in kw (py_lower b2)"
    and kw: "count_phishing_keywords (py_lower b1) (get_list (phishing_keywords default_sms_rules))
           = count_phishing_keywords (py_lower b2) (get_list (phishing_keywords default_sms_rules))"
    and sp: "(15 / 100 < (of_nat (length (filter (\<lambda>c. c \<in> set special_chars) b1)) :: rat)
                        / of_nat (max (length b1) 1))
       = (15 / 100 < (of_nat (length (filter (\<lambda>c. c \<in> set special_chars) b2)) :: rat)
                        / of_nat (max (length b2) 1))"
    and cp: "(length b1 > 10 \<and> 1 / 2 < (of_nat (length (filter is_upper b1)) :: rat) / of_nat (length b1))
       = (length b2 > 10 \<and> 1 / 2 < (of_nat (length (filter is_upper b2)) :: rat) / of_nat (length b2))"
  shows "\<exists>st1 st2. sms_checks L default_sms_rules s n b1 = Inr st1
           \<and> sms_checks L default_sms_rules s n b2 = Inr st2
           \<and> acc_score st1 = acc_score st2 + 30 \<and> 0 \<le> acc_score st2"
proof -
  let ?W = sms_default_weights
  let ?R = default_sms_rules
  from steadyD [OF steady_number, of ?R n acc0] obtain st0
    where n: "check_number ?R ?W n acc0 = Inr st0" and s0: "0 \<le> acc_score st0"
    by auto
  from sms_links_shift [OF sh l2 ns mm s0] obtain m1 m2
    where k1: "check_sms_links L ?W s b1 st0 = Inr m1"
      and k2: "check_sms_links L ?W s b2 st0 = Inr m2"
      and d: "acc_score m1 = acc_score m2 + 30" "25 \<le> acc_score m2"
    by blast
  have ne: "b1 \<noteq> []" "b2 \<noteq> []"
    using sh l2 by (auto simp: extract_links_def)
  have e1: "(phrases_found (get_list (urgent_phrases ?R)) (py_lower b1) = [])
          = (phrases_found (get_list (urgent_phrases ?R)) (py_lower b2) = [])"
    using ph by (simp add: phrases_found_def filter_empty_conv ball_Un)
  have e2: "(phrases_found (get_list (unexpected_action_phrases ?R)) (py_lower b1) = [])
          = (phrases_found (get_list (unexpected_action_phrases ?R)) (py_lower b2) = [])"
    using ph by (simp add: phrases_found_def filter_empty_conv ball_Un)
  have e3: "(filter (\<lambda>kw. str_in kw (py_lower b1)) info_keywords = [])
          = (filter (\<lambda>kw. str_in kw (py_lower b2)) info_keywords = [])"
    using ph by (simp add: filter_empty_conv ball_Un)
  have e4: "(filter (\<lambda>kw. str_in kw (py_lower b1)) sms_promo_keywords = [])
          = (filter (\<lambda>kw. str_in kw (py_lower b2)) sms_promo_keywords = [])"
    using ph by (simp add: filter_empty_conv ball_Un)
  have e5: "(filter (\<lambda>kw. str_in kw (py_lower b1)) bank_keywords = [])
          = (filter (\<lambda>kw. str_in kw (py_lower b2)) bank_keywords = [])"
    using ph by (simp add: filter_empty_conv ball_Un)
  have e6: "list_ex (\<lambda>w. str_in w (py_lower b1)) contact_words
          = list_ex (\<lambda>w. str_in w (py_lower b2)) contact_words"
    using ph by (simp add: list_ex_iff ball_Un)
  have tail: "list_all2 (tracks 30 25)
     [check_sms_urgent ?R ?W (py_lower b1), check_sms_keywords ?R ?W (py_lower b1),
      check_sms_unexpected ?R ?W (py_lower b1), check_sms_info ?W (py_lower b1),
      check_sms_promo ?W (py_lower b1), check_sms_bank ?W s (py_lower b1),
      check_sms_contact ?W (py_lower b1), check_sms_sender_name ?W s, check_sms_format ?W b1]
     [check_sms_urgent ?R ?W (py_lower b2), check_sms_keywords ?R ?W (py_lower b2),
      check_sms_unexpected ?R ?W (py_lower b2), check_sms_info ?W (py_lower b2),
      check_sms_promo ?W (py_lower b2), check_sms_bank ?W s (py_lower b2),
      check_sms_contact ?W (py_lower b2), check_sms_sender_name ?W s, check_sms_format ?W b2]"
    by (simp add: tracks_sms_urgent [OF e1] tracks_sms_keywords [OF kw]
        tracks_sms_unexpected [OF e2] tracks_sms_info [OF e3] tracks_sms_promo [OF e4]
        tracks_sms_bank [OF e5] tracks_sms_contact [OF e6] tracks_sms_sender_name
        tracks_sms_format [OF ne sp cp])
  from run_checks_tracks [OF tail d] obtain st1 st2
    where "run_checks [check_sms_urgent ?R ?W (py_lower b1), check_sms_keywords ?R ?W (py_lower b1),
      check_sms_unexpected ?R ?W (py_lower b1), check_sms_info ?W (py_lower b1),
      check_sms_promo ?W (py_lower b1), check_sms_bank ?W s (py_lower b1),
      check_sms_contact ?W (py_lower b1), check_sms_sender_name ?W s, check_sms_format ?W b1] m1
        = Inr st1"
      and "run_checks [check_sms_urgent ?R ?W (py_lower b2), check_sms_keywords ?R ?W (py_lower b2),
      check_sms_unexpected ?R ?W (py_lower b2), check_sms_info ?W (py_lower b2),
      check_sms_promo ?W (py_lower b2), check_sms_bank ?W s (py_lower b2),
      check_sms_contact ?W (py_lower b2), check_sms_sender_name ?W s, check_sms_format ?W b2] m2
        = Inr st2"
      and "acc_score st1 = acc_score st2 + 30" "25 \<le> acc_score st2"
    by blast
  then show ?thesis
    unfolding sms_checks_def Let_def sms_default_get_weights
    by (simp add: n k1 k2)
qed

lemma sms_example_facts:
  "py_strip ''verify https://bit.ly/abc now'' = ''verify https://bit.ly/abc now''"
  "py_strip ''verify https://example.org/abc now'' = ''verify https://example.org/abc now''"
  "''https://bit.ly/abc'' \<in> set (extract_links ''verify https://bit.ly/abc now'')"
  "urlparse ref_libs ''https://bit.ly/abc''
     = Inr \<lparr>scheme = ''https'', netloc = ''bit.ly'', hostname = Some ''bit.ly'',
            path = ''/abc'', query = [], port = None\<rparr>"
  "str_in ''bit.ly'' (py_replace (py_lower ''bit.ly'') ''www.'' [])"
  "extract_links ''verify https://example.org/abc now'' \<noteq> []"
  "\<not> list_ex (is_shortened_url ref_libs) (extract_links ''verify https://example.org/abc now'')"
  "check_sender_link_mismatch ref_libs [] (extract_links ''verify https://bit.ly/abc now'')
     = check_sender_link_mismatch ref_libs [] (extract_links ''verify https://example.org/abc now'')"
  "\<forall>kw \<in> set (map py_lower (get_list (urgent_phrases default_sms_rules))
                 @ map py_lower (get_list (unexpected_action_phrases default_sms_rules))
                 @ info_keywords @ sms_promo_keywords @ bank_keywords @ contact_words).
               str_in kw (py_lower ''verify https://bit.ly/abc now'')
             = str_in kw (py_lower ''verify https://example.org/abc now'')"
  "count_phishing_keywords (py_lower ''verify https://bit.ly/abc now'')
       (get_list (phishing_keywords default_sms_rules))
     = count_phishing_keywords (py_lower ''verify https://example.org/abc now'')
         (get_list (phishing_keywords default_sms_rules))"
  "(15 / 100 < (of_nat (length (filter (\<lambda>c. c \<in> set special_chars)
        ''verify https://bit.ly/abc now'')) :: rat)
        / of_nat (max (length ''verify https://bit.ly/abc now'') 1))
       = (15 / 100 < (of_nat (length (filter (\<lambda>c. c \<in> set special_chars)
        ''verify https://example.org/abc now'')) :: rat)
        / of_nat (max (length ''verify https://example.org/abc now'') 1))"
  "(length ''verify https://bit.ly/abc now'' > 10
      \<and> 1 / 2 < (of_nat (length (filter is_upper ''verify https://bit.ly/abc now'')) :: rat)
                / of_nat (length ''verify https://bit.ly/abc now''))
       = (length ''verify https://example.org/abc now'' > 10
      \<and> 1 / 2 < (of_nat (length (filter is_upper ''verify https://example.org/abc now'')) :: rat)
                / of_nat (length ''verify https://example.org/abc now''))"
  "(case analyze_sms ref_libs FileNotFound None None (Some ''verify https://example.org/abc now'') of
      Inl e \<Rightarrow> False | Inr r \<Rightarrow> score r = 37)"
  by code_simp+


section \<open>The claims\<close>

text \<open>
  C1.  For every input, the \<open>score\<close> of the result returned by \<^verbatim>\<open>analyze_url\<close>,
  \<^verbatim>\<open>analyze_email\<close> and \<^verbatim>\<open>analyze_sms\<close> is an integer from 0 to 100.  The score is
  \<open>mapped_score\<close> of the accumulated weight, which lies in that range for every
  accumulated weight \<open>x\<close>: it is 0 for a weight that is negative or zero and 100 for a
  weight of 100 or more.
\<close>


theorem score_in_range:
  "(analyze_url L cfgu u = Inr ru \<longrightarrow> 0 \<le> score ru \<and> score ru \<le> 100)
   \<and> (analyze_email L cfge sa sj ca aa = Inr re \<longrightarrow> 0 \<le> score re \<and> score re \<le> 100)
   \<and> (analyze_sms L cfgs ss sn sc = Inr rs \<longrightarrow> 0 \<le> score rs \<and> score rs \<le> 100)
   \<and> 0 \<le> mapped_score x \<and> mapped_score x \<le> 100
   \<and> (y \<le> 0 \<longrightarrow> mapped_score y = 0) \<and> (100 \<le> z \<longrightarrow> mapped_score z = 100)"
proof -
  have url: "0 \<le> score ru \<and> score ru \<le> 100" if "analyze_url L cfgu u = Inr ru"
    using analyze_url_Inr [OF that] by (auto simp: mapped_score_range)
  have email: "0 \<le> score re \<and> score re \<le> 100" if "analyze_email L cfge sa sj ca aa = Inr re"
    using analyze_email_Inr [OF that] by (auto simp: mapped_score_range)
  have sms: "0 \<le> score rs \<and> score rs \<le> 100" if "analyze_sms L cfgs ss sn sc = Inr rs"
    using analyze_sms_Inr [OF that] by (auto simp: mapped_score_range)
  from url email sms show ?thesis
    by (simp add: mapped_score_range mapped_score_low mapped_score_high)
qed

theorem score_in_range_witness:
  "(case analyze_url ref_libs FileNotFound (PyStr []) of
      Inl e \<Rightarrow> False | Inr r \<Rightarrow> 0 \<le> score r \<and> score r \<le> 100)
   \<and> (case analyze_email ref_libs FileNotFound None None None None of
      Inl e \<Rightarrow> False | Inr r \<Rightarrow> 0 \<le> score r \<and> score r \<le> 100)
   \<and> (case analyze_sms ref_libs FileNotFound None None None of
      Inl e \<Rightarrow> False | Inr r \<Rightarrow> 0 \<le> score r \<and> score r \<le> 100)
   \<and> mapped_score (- 40) = 0 \<and> mapped_score 135 = 100"
proof -
  obtain ru where ru: "analyze_url ref_libs FileNotFound (PyStr []) = Inr ru"
    by (simp add: analyze_url_def load_url_rules_def)
  obtain re where re: "analyze_email ref_libs FileNotFound None None None None = Inr re"
    using analyze_email_missing_total by blast
  obtain rs where rs: "analyze_sms ref_libs FileNotFound None None None = Inr rs"
    using analyze_sms_total by blast
  from score_in_range [where L = ref_libs and cfgu = FileNotFound and u = "PyStr []" and ru = ru
      and cfge = FileNotFound and sa = None and sj = None and ca = None and aa = None and re = re
      and cfgs = FileNotFound and ss = None and sn = None and sc = None and rs = rs
      and y = "- 40" and z = 135] ru re rs
  show ?thesis by simp
qed

text \<open>
  C2.  The verdict is one fixed function of the clamped score, the same in the three
  analyzers: phishing from 65 on, suspicious from 30 on, safe below.  So of two scores
  the lower never has the more severe verdict.
\<close>


theorem verdict_thresholds:
  "verdict_of sc = (if sc \<ge> 65 then ''phishing'' else if sc \<ge> 30 then ''suspicious'' else ''safe'')
   \<and> (s1 < s2 \<longrightarrow> severity (verdict_of s1) \<le> severity (verdict_of s2))
   \<and> (analyze_url L cfgu u = Inr ru \<longrightarrow> verdict ru = verdict_of (score ru))
   \<and> (analyze_email L cfge sa sj ca aa = Inr re \<longrightarrow> verdict re = verdict_of (score re))
   \<and> (analyze_sms L cfgs ss sn sc' = Inr rs \<longrightarrow> verdict rs = verdict_of (score rs))"
proof -
  have mono: "severity (verdict_of s1) \<le> severity (verdict_of s2)" if "s1 < s2"
    using that by (simp add: verdict_of_def severity_def)
  have url: "verdict ru = verdict_of (score ru)" if "analyze_url L cfgu u = Inr ru"
    using analyze_url_Inr [OF that] by (auto simp: verdict_of_100)
  have email: "verdict re = verdict_of (score re)" if "analyze_email L cfge sa sj ca aa = Inr re"
    using analyze_email_Inr [OF that] by auto
  have sms: "verdict rs = verdict_of (score rs)" if "analyze_sms L cfgs ss sn sc' = Inr rs"
    using analyze_sms_Inr [OF that] by auto
  from mono url email sms show ?thesis
    by (simp add: verdict_of_def)
qed

theorem verdict_thresholds_witness:
  "verdict_of 29 = ''safe'' \<and> verdict_of 30 = ''suspicious'' \<and> verdict_of 64 = ''suspicious''
   \<and> verdict_of 65 = ''phishing''
   \<and> severity (verdict_of 29) \<le> severity (verdict_of 30)
   \<and> severity (verdict_of 64) \<le> severity (verdict_of 65)
   \<and> (case analyze_url ref_libs FileNotFound (PyStr []) of
        Inl e \<Rightarrow> False | Inr r \<Rightarrow> verdict r = verdict_of (score r))
   \<and> (case analyze_email ref_libs FileNotFound None None None None of
        Inl e \<Rightarrow> False | Inr r \<Rightarrow> verdict r = verdict_of (score r))
   \<and> (case analyze_sms ref_libs FileNotFound None None None of
        Inl e \<Rightarrow> False | Inr r \<Rightarrow> verdict r = verdict_of (score r))"
proof -
  obtain ru where ru: "analyze_url ref_libs FileNotFound (PyStr []) = Inr ru"
    by (simp add: analyze_url_def load_url_rules_def)
  obtain re where re: "analyze_email ref_libs FileNotFound None None None None = Inr re"
    using analyze_email_missing_total by blast
  obtain rs where rs: "analyze_sms ref_libs FileNotFound None None None = Inr rs"
    using analyze_sms_total by blast
  note t = verdict_thresholds [where L = ref_libs and cfgu = FileNotFound and u = "PyStr []"
      and ru = ru and cfge = FileNotFound and sa = None and sj = None and ca = None and aa = None
      and re = re and cfgs = FileNotFound and ss = None and sn = None and sc' = None and rs = rs]
  have "verdict_of 29 = ''safe''" "verdict_of 30 = ''suspicious''"
    "verdict_of 64 = ''suspicious''" "verdict_of 65 = ''phishing''"
    using t [where sc = 29] t [where sc = 30] t [where sc = 64] t [where sc = 65] by simp_all
  moreover have "severity (verdict_of 29) \<le> severity (verdict_of 30)"
    "severity (verdict_of 64) \<le> severity (verdict_of 65)"
    using t [where sc = 0 and ?s1.0 = 29 and ?s2.0 = 30]
      t [where sc = 0 and ?s1.0 = 64 and ?s2.0 = 65] by simp_all
  moreover have "verdict ru = verdict_of (score ru)" "verdict re = verdict_of (score re)"
    "verdict rs = verdict_of (score rs)"
    using t [where sc = 0 and ?s1.0 = 0 and ?s2.0 = 0] ru re rs by simp_all
  ultimately show ?thesis using ru re rs by simp
qed

text \<open>
  C9.  The \<open>reasons\<close> of a returned result are never empty; when the checks recorded no
  reason, that is when no check fired, they are the one sentinel reason
  "No obvious automated red flags detected".
\<close>


theorem reasons_never_empty:
  "(analyze_url L cfgu u = Inr ru \<longrightarrow>
      reasons ru \<noteq> []
      \<and> (\<forall>rules s p st. load_url_rules cfgu = Inr rules \<and> u = PyStr s \<and> s \<noteq> []
            \<and> url_parts_of L s = Inr p \<and> url_checks L rules p = Inr st \<and> acc_reasons st = []
          \<longrightarrow> reasons ru = [sentinel_reason]))
   \<and> (analyze_email L cfge sa sj ca aa = Inr re \<longrightarrow>
      reasons re \<noteq> []
      \<and> (\<forall>rules st. load_email_rules cfge = Inr rules
            \<and> email_checks L rules (py_strip (or_empty sa)) (py_strip (or_empty sj))
                (py_strip (or_empty ca)) (case aa of None \<Rightarrow> [] | Some xs \<Rightarrow> xs) = Inr st
            \<and> acc_reasons st = []
          \<longrightarrow> reasons re = [sentinel_reason]))
   \<and> (analyze_sms L cfgs ss sn sc = Inr rs \<longrightarrow>
      reasons rs \<noteq> []
      \<and> (\<forall>rules st. load_sms_rules cfgs = Inr rules
            \<and> sms_checks L rules (py_strip (or_empty ss)) (py_strip (or_empty sn))
                (py_strip (or_empty sc)) = Inr st
            \<and> acc_reasons st = []
          \<longrightarrow> reasons rs = [sentinel_reason]))
   \<and> sentinel_reason = ''No obvious automated red flags detected''"
proof -
  have url: "reasons ru \<noteq> []
      \<and> (\<forall>rules s p st. load_url_rules cfgu = Inr rules \<and> u = PyStr s \<and> s \<noteq> []
            \<and> url_parts_of L s = Inr p \<and> url_checks L rules p = Inr st \<and> acc_reasons st = []
          \<longrightarrow> reasons ru = [sentinel_reason])"
    if "analyze_url L cfgu u = Inr ru"
    using analyze_url_Inr [OF that]
    by (auto simp: reasons_or_sentinel_def split: if_splits)
  have email: "reasons re \<noteq> []
      \<and> (\<forall>rules st. load_email_rules cfge = Inr rules
            \<and> email_checks L rules (py_strip (or_empty sa)) (py_strip (or_empty sj))
                (py_strip (or_empty ca)) (case aa of None \<Rightarrow> [] | Some xs \<Rightarrow> xs) = Inr st
            \<and> acc_reasons st = []
          \<longrightarrow> reasons re = [sentinel_reason])"
    if "analyze_email L cfge sa sj ca aa = Inr re"
    using analyze_email_Inr [OF that]
    by (auto simp: reasons_or_sentinel_def split: if_splits)
  have sms: "reasons rs \<noteq> []
      \<and> (\<forall>rules st. load_sms_rules cfgs = Inr rules
            \<and> sms_checks L rules (py_strip (or_empty ss)) (py_strip (or_empty sn))
                (py_strip (or_empty sc)) = Inr st
            \<and> acc_reasons st = []
          \<longrightarrow> reasons rs = [sentinel_reason])"
    if "analyze_sms L cfgs ss sn sc = Inr rs"
    using analyze_sms_Inr [OF that]
    by (auto simp: reasons_or_sentinel_def split: if_splits)
  from url email sms show ?thesis
    by (simp add: sentinel_reason_def)
qed

theorem reasons_never_empty_witness:
  "(case analyze_url ref_libs FileNotFound (PyStr []) of
      Inl e \<Rightarrow> False | Inr r \<Rightarrow> reasons r \<noteq> [])
   \<and> (case analyze_email ref_libs FileNotFound None None None None of
      Inl e \<Rightarrow> False | Inr r \<Rightarrow> reasons r = [''No obvious automated red flags detected''])
   \<and> (case analyze_sms ref_libs FileNotFound None None None of
      Inl e \<Rightarrow> False | Inr r \<Rightarrow> reasons r = [''No obvious automated red flags detected''])"
proof -
  obtain ru where ru: "analyze_url ref_libs FileNotFound (PyStr []) = Inr ru"
    by (simp add: analyze_url_def load_url_rules_def)
  obtain re where re: "analyze_email ref_libs FileNotFound None None None None = Inr re"
    using analyze_email_missing_total by blast
  obtain rs where rs: "analyze_sms ref_libs FileNotFound None None None = Inr rs"
    using analyze_sms_total by blast
  obtain ste where ste: "email_checks ref_libs default_email_rules [] [] [] [] = Inr ste"
      "acc_reasons ste = []"
    using email_empty_checks by blast
  obtain sts where sts: "sms_checks ref_libs default_sms_rules [] [] [] = Inr sts"
      "acc_reasons sts = []"
    using sms_empty_checks by blast
  note t = reasons_never_empty [where L = ref_libs and cfgu = FileNotFound and u = "PyStr []"
      and ru = ru and cfge = FileNotFound and sa = None and sj = None and ca = None and aa = None
      and re = re and cfgs = FileNotFound and ss = None and sn = None and sc = None and rs = rs]
  from t ru have "reasons ru \<noteq> []" by simp
  moreover from t re ste have "reasons re = [sentinel_reason]"
    by (simp add: load_email_rules_def)
  moreover from t rs sts have "reasons rs = [sentinel_reason]"
    by (simp add: load_sms_rules_def)
  ultimately show ?thesis using ru re rs t by simp
qed







text \<open>
  C5.  \<^verbatim>\<open>analyze_email\<close> with the sender \<^verbatim>\<open>admin@googie.com\<close> and no other field returns
  the verdict phishing, whatever rules are loaded.  The label \<^verbatim>\<open>googie\<close> is at distance
  1 from the brand \<^verbatim>\<open>google\<close>; the finding weighs 75, which alone reaches the threshold
  65 whatever the other fields are, since no other check of the analyzer lowers the score;
  and the loop over the brands ends at this first match, whatever brands follow: one
  reason, 75 once.  The hypothesis on \<^verbatim>\<open>tldextract\<close> is that the registered domain label
  of \<^verbatim>\<open>googie.com\<close> is \<^verbatim>\<open>googie\<close>.
\<close>


theorem googie_sender_is_phishing:
  assumes "load_email_rules cfg = Inr rules"
    and "domain (tld_extract L ''googie.com'') = ''googie''"
  shows "(\<exists>r. analyze_email L cfg (Some ''admin@googie.com'') None None None = Inr r
            \<and> verdict r = ''phishing'')
       \<and> (\<exists>r. analyze_email L cfg (Some ''admin@googie.com'') sj ca aa = Inr r
            \<and> verdict r = ''phishing'' \<and> 75 \<le> score r)
       \<and> levenshtein_distance ''googie'' ''google'' = 1
       \<and> acc_score (typosquat_scan ''googie.com'' ''googie'' (''google'' # brands) st)
           = acc_score st + 75
       \<and> acc_reasons (typosquat_scan ''googie.com'' ''googie'' (''google'' # brands) st)
           = acc_reasons st @ [''Typosquatting detected: '' @ quoted ''googie.com''
               @ '' mimics trusted brand '' @ quoted ''google'']"
proof -
  have any: "\<exists>r. analyze_email L cfg (Some ''admin@googie.com'') sj' ca' aa' = Inr r
            \<and> verdict r = ''phishing'' \<and> 75 \<le> score r" for sj' ca' aa'
    by (rule typosquat_forces_phishing [OF assms(1), where b = "''google''" and d = "''googie.com''"])
       (simp_all add: googie_facts assms(2) TRUSTED_BRANDS_def)
  from any [of None None None] any [of sj ca aa] show ?thesis
    by (auto simp: googie_facts Let_def)
qed

theorem googie_sender_is_phishing_witness:
  "load_email_rules FileNotFound = Inr default_email_rules
   \<and> domain (tld_extract ref_libs ''googie.com'') = ''googie''
   \<and> (case analyze_email ref_libs FileNotFound (Some ''admin@googie.com'') None None None of
        Inl e \<Rightarrow> False | Inr r \<Rightarrow> verdict r = ''phishing'')"
proof -
  have l: "load_email_rules FileNotFound = Inr default_email_rules"
    by (simp add: load_email_rules_def)
  have t: "domain (tld_extract ref_libs ''googie.com'') = ''googie''"
    by code_simp
  from googie_sender_is_phishing [OF l t] obtain r
    where "analyze_email ref_libs FileNotFound (Some ''admin@googie.com'') None None None = Inr r"
      and "verdict r = ''phishing''"
    by blast
  with l t show ?thesis by simp
qed

text \<open>
  C7.  \<^verbatim>\<open>analyze_email\<close> with the sender \<^verbatim>\<open>googlesecurity@gmail.com\<close> and no other
  field returns the verdict phishing.  The brand \<^verbatim>\<open>google\<close> is in the local part and the
  label of the sender's domain is \<^verbatim>\<open>gmail\<close>, which adds the weight 55 of an
  impersonation; \<^verbatim>\<open>gmail.com\<close> is among the suspicious sender domains of the rules, as
  it is in the built-in rules, which adds 20.
\<close>


theorem brand_in_local_part_is_phishing:
  assumes "load_email_rules cfg = Inr rules"
    and "''gmail.com'' \<in> set (get_list (suspicious_sender_domains rules))"
    and "domain (tld_extract L ''gmail.com'') = ''gmail''"
  shows "(\<exists>r. analyze_email L cfg (Some ''googlesecurity@gmail.com'') None None None = Inr r
            \<and> verdict r = ''phishing'' \<and> 75 \<le> score r)
       \<and> acc_score (local_part_scan L ''gmail.com'' ''googlesecurity'' TRUSTED_BRANDS st)
           = acc_score st + 55"
proof -
  have hit: "acc_score (local_part_scan L ''gmail.com'' ''googlesecurity'' TRUSTED_BRANDS st')
           = acc_score st' + 55" for st'
    using local_part_scan_hit [where b = "''google''" and brands = TRUSTED_BRANDS
        and lp = "''googlesecurity''" and d = "''gmail.com''" and L = L and st = st']
    by (simp add: TRUSTED_BRANDS_def gmail_facts assms(3))
  have g0: "gains 0 (check_typosquat L ''gmail.com'')"
    by (rule steady_gains) (rule steady_typosquat)
  have g1: "gains 55 (check_local_part L ''googlesecurity@gmail.com'' ''gmail.com'')"
    by (rule gainsI) (simp add: check_local_part_def Let_def gmail_facts hit)
  have g2: "gains 20 (check_sender_domain rules ''gmail.com'')"
    by (rule gainsI)
       (simp add: check_sender_domain_def Let_def assms(2) fire_Some email_weight_values)
  have "\<exists>st. email_checks L rules ''googlesecurity@gmail.com'' [] [] [] = Inr st
           \<and> 75 \<le> acc_score st"
    unfolding email_checks_def Let_def gmail_facts
    apply (rule run_checks_gains [OF g0, where k = 0])
     apply simp
    apply (rule run_checks_gains [OF g1, where k = 0])
     apply simp
    apply (rule run_checks_gains [OF g2, where k = 55])
     apply simp
    apply (rule run_checks_steady_from)
     apply (simp add: steady_email)
    apply simp
    done
  then have "\<exists>r. analyze_email L cfg (Some ''googlesecurity@gmail.com'') None None None = Inr r
            \<and> verdict r = ''phishing'' \<and> 75 \<le> score r"
    by (intro email_phishing_from_score [OF assms(1)]) (simp add: gmail_facts)
  with hit show ?thesis by simp
qed

theorem brand_in_local_part_is_phishing_witness:
  "load_email_rules FileNotFound = Inr default_email_rules
   \<and> ''gmail.com'' \<in> set (get_list (suspicious_sender_domains default_email_rules))
   \<and> domain (tld_extract ref_libs ''gmail.com'') = ''gmail''
   \<and> (case analyze_email ref_libs FileNotFound (Some ''googlesecurity@gmail.com'') None None None of
        Inl e \<Rightarrow> False | Inr r \<Rightarrow> verdict r = ''phishing'')"
proof -
  have l: "load_email_rules FileNotFound = Inr default_email_rules"
    by (simp add: load_email_rules_def)
  have m: "''gmail.com'' \<in> set (get_list (suspicious_sender_domains default_email_rules))"
    by (simp add: default_email_rules_def no_rules_def get_list_def)
  have t: "domain (tld_extract ref_libs ''gmail.com'') = ''gmail''"
    by code_simp
  from brand_in_local_part_is_phishing [OF l m t] obtain r
    where "analyze_email ref_libs FileNotFound (Some ''googlesecurity@gmail.com'') None None None
             = Inr r"
      and "verdict r = ''phishing''"
    by blast
  with l m t show ?thesis by simp
qed

text \<open>
  C10.  With the built-in rules, \<^verbatim>\<open>analyze_email\<close> with every argument \<^verbatim>\<open>None\<close> or
  empty, and \<^verbatim>\<open>analyze_sms\<close> likewise, return score 0, verdict safe and the one sentinel
  reason, where \<^verbatim>\<open>analyze_url\<close> gives the empty string score 100 and verdict phishing.
\<close>


theorem empty_message_is_safe:
  assumes "sa = None \<or> sa = Some []" and "sj = None \<or> sj = Some []"
    and "ca = None \<or> ca = Some []" and "aa = None \<or> aa = Some []"
    and "ss = None \<or> ss = Some []" and "sn = None \<or> sn = Some []"
    and "sc = None \<or> sc = Some []"
  shows "(\<exists>r. analyze_email L FileNotFound sa sj ca aa = Inr r
            \<and> score r = 0 \<and> verdict r = ''safe'' \<and> reasons r = [sentinel_reason])
       \<and> (\<exists>r. analyze_sms L FileNotFound ss sn sc = Inr r
            \<and> score r = 0 \<and> verdict r = ''safe'' \<and> reasons r = [sentinel_reason])
       \<and> (\<exists>r. analyze_url L FileNotFound (PyStr []) = Inr r
            \<and> score r = 100 \<and> verdict r = ''phishing'')"
proof -
  obtain ste where ste: "email_checks L default_email_rules [] [] [] [] = Inr ste"
      "acc_score ste = 0" "acc_reasons ste = []"
    using email_empty_checks by blast
  obtain sts where sts: "sms_checks L default_sms_rules [] [] [] = Inr sts"
      "acc_score sts = 0" "acc_reasons sts = []"
    using sms_empty_checks by blast
  have blank: "py_strip (or_empty x) = []" if "x = None \<or> x = Some []" for x
    using that by auto
  have e: "py_strip (or_empty sa) = []" "py_strip (or_empty sj) = []" "py_strip (or_empty ca) = []"
    "py_strip (or_empty ss) = []" "py_strip (or_empty sn) = []" "py_strip (or_empty sc) = []"
    by (simp_all only: blank assms)
  have e': "(case aa of None \<Rightarrow> [] | Some xs \<Rightarrow> xs) = []"
    using assms(4) by auto
  have z: "mapped_score 0 = 0" "verdict_of 0 = ''safe''"
    by (simp_all add: mapped_score_low verdict_of_def)
  have "\<exists>r. analyze_email L FileNotFound sa sj ca aa = Inr r
            \<and> score r = 0 \<and> verdict r = ''safe'' \<and> reasons r = [sentinel_reason]"
    by (simp add: analyze_email_def load_email_rules_def Let_def e e' ste z reasons_or_sentinel_def)
  moreover have "\<exists>r. analyze_sms L FileNotFound ss sn sc = Inr r
            \<and> score r = 0 \<and> verdict r = ''safe'' \<and> reasons r = [sentinel_reason]"
    by (simp add: analyze_sms_def load_sms_rules_def Let_def e sts z reasons_or_sentinel_def)
  moreover have "\<exists>r. analyze_url L FileNotFound (PyStr []) = Inr r
            \<and> score r = 100 \<and> verdict r = ''phishing''"
    by (simp add: analyze_url_def load_url_rules_def)
  ultimately show ?thesis by blast
qed

theorem empty_message_is_safe_witness:
  "(case analyze_email ref_libs FileNotFound None (Some []) None (Some []) of
      Inl e \<Rightarrow> False
    | Inr r \<Rightarrow> score r = 0 \<and> verdict r = ''safe''
               \<and> reasons r = [''No obvious automated red flags detected''])
   \<and> (case analyze_sms ref_libs FileNotFound (Some []) None (Some []) of
      Inl e \<Rightarrow> False
    | Inr r \<Rightarrow> score r = 0 \<and> verdict r = ''safe''
               \<and> reasons r = [''No obvious automated red flags detected''])"
proof -
  from empty_message_is_safe [where L = ref_libs and sa = None and sj = "Some []" and ca = None
      and aa = "Some []" and ss = "Some []" and sn = None and sc = "Some []"]
  obtain re rs
    where "analyze_email ref_libs FileNotFound None (Some []) None (Some []) = Inr re"
      and "score re = 0 \<and> verdict re = ''safe'' \<and> reasons re = [sentinel_reason]"
      and "analyze_sms ref_libs FileNotFound (Some []) None (Some []) = Inr rs"
      and "score rs = 0 \<and> verdict rs = ''safe'' \<and> reasons rs = [sentinel_reason]"
    by blast
  then show ?thesis by (simp add: sentinel_reason_def)
qed

text \<open>
  C6.  With the built-in rules, \<^verbatim>\<open>analyze_url\<close> on
  \<^verbatim>\<open>https://www.google.com/search?q=x\<close> returns verdict safe with score 0: the
  exact whitelist match is the only check that fires, its weight of \<open>- 40\<close> is the whole
  accumulated weight, and the single reason is the trust notice.  The libraries are taken
  to parse the address as \<^verbatim>\<open>urllib\<close> and \<^verbatim>\<open>tldextract\<close> do, and \<^verbatim>\<open>difflib\<close> to give
  no other trusted domain a ratio of \<open>4 / 5\<close> or more against \<^verbatim>\<open>google.com\<close>.
\<close>

theorem google_search_url_is_safe:
  assumes "urlparse L ''https://www.google.com/search?q=x'' = Inr parsed_url"
    and "hostname parsed_url = Some ''www.google.com''"
    and "path parsed_url = ''/search''"
    and "query parsed_url = ''q=x''"
    and "unquote L ''/search'' = ''/search''"
    and "tld_extract L ''www.google.com''
           = \<lparr>subdomain = ''www'', domain = ''google'', suffix = ''com''\<rparr>"
    and "set (set_order L (get_list (trusted_domains default_url_rules)))
           = set (get_list (trusted_domains default_url_rules))"
    and "\<forall>w \<in> set (get_list (trusted_domains default_url_rules)).
           w \<noteq> ''google.com'' \<longrightarrow> seq_ratio L ''google.com'' w < 4 / 5"
  shows "(\<exists>r. analyze_url L FileNotFound (PyStr ''https://www.google.com/search?q=x'') = Inr r
            \<and> verdict r = ''safe'' \<and> score r = 0
            \<and> reasons r = [''Trust verified: Result is within a secure/official name space (''
                 @ quoted ''google.com'' @ '')''])
       \<and> (\<exists>p st. url_parts_of L ''https://www.google.com/search?q=x'' = Inr p
            \<and> url_checks L default_url_rules p = Inr st \<and> acc_score st = - 40)"
proof -
  from google_checks [OF assms] obtain p st
    where p: "url_parts_of L ''https://www.google.com/search?q=x'' = Inr p"
      and st: "url_checks L default_url_rules p = Inr st"
      and sc: "acc_score st = - 40"
      and rs: "acc_reasons st = [''Trust verified: Result is within a secure/official name space (''
                @ quoted ''google.com'' @ '')'']"
    by blast
  have "analyze_url L FileNotFound (PyStr ''https://www.google.com/search?q=x'')
          = Inr (url_result_of p st)"
    by (simp add: analyze_url_def load_url_rules_def p st)
  moreover have "score (url_result_of p st) = 0" "verdict (url_result_of p st) = ''safe''"
    by (simp_all add: sc mapped_score_low verdict_of_def)
  moreover have "reasons (url_result_of p st)
      = [''Trust verified: Result is within a secure/official name space (''
                 @ quoted ''google.com'' @ '')'']"
    by (simp add: rs reasons_or_sentinel_def)
  ultimately show ?thesis using p st sc by blast
qed

theorem google_search_url_is_safe_witness:
  "urlparse ref_libs ''https://www.google.com/search?q=x''
     = Inr \<lparr>scheme = ''https'', netloc = ''www.google.com'', hostname = Some ''www.google.com'',
            path = ''/search'', query = ''q=x'', port = None\<rparr>
   \<and> unquote ref_libs ''/search'' = ''/search''
   \<and> tld_extract ref_libs ''www.google.com''
       = \<lparr>subdomain = ''www'', domain = ''google'', suffix = ''com''\<rparr>
   \<and> list_all (\<lambda>w. seq_ratio ref_libs ''google.com'' w < 4 / 5)
       (remove1 ''google.com'' (get_list (trusted_domains default_url_rules)))
   \<and> (case analyze_url ref_libs FileNotFound (PyStr ''https://www.google.com/search?q=x'') of
        Inl e \<Rightarrow> False | Inr r \<Rightarrow> verdict r = ''safe'' \<and> score r = 0)"
proof -
  have order: "set (set_order ref_libs (get_list (trusted_domains default_url_rules)))
           = set (get_list (trusted_domains default_url_rules))"
    by (simp add: ref_libs_def)
  have ratio: "\<forall>w \<in> set (get_list (trusted_domains default_url_rules)).
           w \<noteq> ''google.com'' \<longrightarrow> seq_ratio ref_libs ''google.com'' w < 4 / 5"
    using ref_libs_google(4) by (simp add: default_url_lists)
  from google_search_url_is_safe [OF ref_libs_google(1) _ _ _ ref_libs_google(2,3) order ratio]
  obtain r where "analyze_url ref_libs FileNotFound (PyStr ''https://www.google.com/search?q=x'') = Inr r"
    and "verdict r = ''safe''" and "score r = 0"
    by auto
  with ref_libs_google show ?thesis by simp
qed

text \<open>
  C8, counterexample.  The claim holds the score with a \<^verbatim>\<open>bit.ly\<close> link to be strictly
  higher for every body.  The score is capped at 100: a body that asks for an OTP and a
  PIN, names a bank and offers something free accumulates 105 with a full link and 135
  with the \<^verbatim>\<open>bit.ly\<close> link, and both calls return 100.
\<close>

theorem shortened_link_not_always_higher:
  "(case analyze_sms ref_libs FileNotFound None None (Some ''otp pin bank free https://bit.ly/x'') of
      Inl e \<Rightarrow> False
    | Inr r1 \<Rightarrow>
       (case analyze_sms ref_libs FileNotFound None None
               (Some ''otp pin bank free https://example.com/x'') of
          Inl e \<Rightarrow> False
        | Inr r2 \<Rightarrow> score r1 = 100 \<and> score r2 = 100 \<and> \<not> score r2 < score r1
             \<and> links_found r1 = [''https://bit.ly/x'']
             \<and> links_found r2 = [''https://example.com/x'']))
   \<and> is_shortened_url ref_libs ''https://bit.ly/x''
   \<and> \<not> is_shortened_url ref_libs ''https://example.com/x''"
  by code_simp

text \<open>
  C8, as the code has it.  With the built-in rules, take two bodies for the same sender
  and number: the first holds a link whose network location contains \<^verbatim>\<open>bit.ly\<close>, the
  second holds a link and none that \<^verbatim>\<open>is_shortened_url\<close> accepts, and the other checks
  see the same in both (the sender-link mismatch, the phrases looked for, the count of
  phishing keywords, the two formatting flags).  Then the score of the first is the score
  of the second plus the weight 30 of \<^verbatim>\<open>shortened_url\<close>, capped at 100; it is strictly
  higher exactly when the second is below 100.
\<close>

theorem shortened_link_adds_its_weight:
  assumes "py_strip (or_empty sa) = s" and "py_strip c1 = b1" and "py_strip c2 = b2"
    and "l \<in> set (extract_links b1)" and "urlparse L l = Inr p"
    and "str_in ''bit.ly'' (py_replace (py_lower (netloc p)) ''www.'' [])"
    and "extract_links b2 \<noteq> []"
    and "\<not> list_ex (is_shortened_url L) (extract_links b2)"
    and "check_sender_link_mismatch L s (extract_links b1)
           = check_sender_link_mismatch L s (extract_links b2)"
    and "\<forall>kw \<in> set (map py_lower (get_list (urgent_phrases default_sms_rules))
                 @ map py_lower (get_list (unexpected_action_phrases default_sms_rules))
                 @ info_keywords @ sms_promo_keywords @ bank_keywords @ contact_words).
               str_in kw (py_lower b1) = str_in kw (py_lower b2)"
    and "count_phishing_keywords (py_lower b1) (get_list (phishing_keywords default_sms_rules))
           = count_phishing_keywords (py_lower b2) (get_list (phishing_keywords default_sms_rules))"
    and "(15 / 100 < (of_nat (length (filter (\<lambda>c. c \<in> set special_chars) b1)) :: rat)
                        / of_nat (max (length b1) 1))
       = (15 / 100 < (of_nat (length (filter (\<lambda>c. c \<in> set special_chars) b2)) :: rat)
                        / of_nat (max (length b2) 1))"
    and "(length b1 > 10 \<and> 1 / 2 < (of_nat (length (filter is_upper b1)) :: rat) / of_nat (length b1))
       = (length b2 > 10 \<and> 1 / 2 < (of_nat (length (filter is_upper b2)) :: rat) / of_nat (length b2))"
  shows "\<exists>r1 r2. analyze_sms L FileNotFound sa na (Some c1) = Inr r1
           \<and> analyze_sms L FileNotFound sa na (Some c2) = Inr r2
           \<and> score r1 = min 100 (score r2 + 30)
           \<and> (score r2 < score r1) = (score r2 < 100)"
proof -
  from assms(4-6) have sh: "list_ex (is_shortened_url L) (extract_links b1)"
    using bitly_is_shortened [of L l p] by (auto simp: list_ex_iff)
  from sms_checks_shift [OF sh assms(7-13), of "py_strip (or_empty na)"] obtain st1 st2
    where c1: "sms_checks L default_sms_rules s (py_strip (or_empty na)) b1 = Inr st1"
      and c2: "sms_checks L default_sms_rules s (py_strip (or_empty na)) b2 = Inr st2"
      and d: "acc_score st1 = acc_score st2 + 30" "0 \<le> acc_score st2"
    by blast
  let ?r1 = "sms_result_of s (py_strip (or_empty na)) b1 st1"
  let ?r2 = "sms_result_of s (py_strip (or_empty na)) b2 st2"
  have "analyze_sms L FileNotFound sa na (Some c1) = Inr ?r1"
    and "analyze_sms L FileNotFound sa na (Some c2) = Inr ?r2"
    by (simp_all add: analyze_sms_def load_sms_rules_def Let_def assms(1-3) c1 c2)
  moreover have sc: "score ?r1 = min 100 (score ?r2 + 30)"
    using mapped_score_shift [OF d(2)] by (simp add: d(1))
  moreover have "(score ?r2 < score ?r1) = (score ?r2 < 100)"
    using sc by auto
  ultimately show ?thesis by blast
qed

theorem shortened_link_adds_its_weight_witness:
  "(case analyze_sms ref_libs FileNotFound None None (Some ''verify https://bit.ly/abc now'') of
      Inl e \<Rightarrow> False
    | Inr r1 \<Rightarrow>
       (case analyze_sms ref_libs FileNotFound None None
               (Some ''verify https://example.org/abc now'') of
          Inl e \<Rightarrow> False
        | Inr r2 \<Rightarrow> score r2 = 37 \<and> score r1 = 67 \<and> score r2 < score r1))"
proof -
  have s: "py_strip (or_empty None) = []" by simp
  have n: "str_in ''bit.ly'' (py_replace (py_lower (netloc
      \<lparr>scheme = ''https'', netloc = ''bit.ly'', hostname = Some ''bit.ly'',
            path = ''/abc'', query = [], port = None\<rparr>)) ''www.'' [])"
    using sms_example_facts(5) by simp
  from shortened_link_adds_its_weight [OF s sms_example_facts(1,2,3,4) n sms_example_facts(6-12),
      of None]
  obtain r1 r2
    where "analyze_sms ref_libs FileNotFound None None (Some ''verify https://bit.ly/abc now'') = Inr r1"
      and "analyze_sms ref_libs FileNotFound None None (Some ''verify https://example.org/abc now'') = Inr r2"
      and "score r1 = min 100 (score r2 + 30)"
    by blast
  with sms_example_facts(13) show ?thesis by simp
qed

end
